theory Spec2Isabelle
  imports Main
begin

section \<open>Data model\<close>

text \<open>
  The gateway stages an uploaded file on the local disk, pushes it to the remote
  Drive backend and reclaims the local copy. The model keeps the local disk, the clock,
  the state of the remote backend and the sequence of effects in one record, the world,
  which every operation takes and returns.
\<close>

subsection \<open>Characters and strings of the source\<close>

definition quote :: char where
  "quote = CHR 0x27"

definition backslash :: char where
  "backslash = CHR 0x5C"

text \<open>Decimal rendering of a number, as JavaScript's \<^verbatim>\<open>Date.now() + '-'\<close> does.\<close>

definition digit :: "nat \<Rightarrow> char" where
  "digit d = ''0123456789'' ! d"

fun string_of_nat :: "nat \<Rightarrow> string" where
  "string_of_nat n =
     (if n < 10 then [digit n] else string_of_nat (n div 10) @ [digit (n mod 10)])"

text \<open>
  \<^verbatim>\<open>path.join\<close> on a directory and one further segment. The segments the program
  joins (\<^verbatim>\<open>__dirname\<close>, the literals \<^verbatim>\<open>img\<close> and \<^verbatim>\<open>uploads\<close>, a file name
  without separators) need no normalisation.
\<close>

definition path_join :: "string \<Rightarrow> string \<Rightarrow> string" where
  "path_join dir seg = dir @ ''/'' @ seg"

subsection \<open>Files of the remote backend\<close>

text \<open>
  The file resource of the backend. Every property may be absent (\<open>None\<close> is
  JavaScript's \<^verbatim>\<open>undefined\<close>). The same shape serves as the \<^verbatim>\<open>resource\<close> of a
  create or update request and as the \<^verbatim>\<open>data\<close> of a response.
\<close>

record drive_file =
  file_id :: "string option"
  file_name :: "string option"
  mimeType :: "string option"
  webViewLink :: "string option"
  webContentLink :: "string option"
  parents :: "string list option"
  publicDownloadLink :: "string option"

definition no_file :: drive_file where
  "no_file = \<lparr>file_id = None, file_name = None, mimeType = None, webViewLink = None,
     webContentLink = None, parents = None, publicDownloadLink = None\<rparr>"

text \<open>The media of a request: the content type and what the read stream of the path yields.\<close>

record media =
  media_mimeType :: string
  body :: "string option"

record 'a response =
  status :: nat
  data :: 'a

datatype error = DriveError string | ENOENT string | MulterError string

subsection \<open>The remote backend\<close>

text \<open>
  The backend is not part of the repository: it is a parameter, one function for each
  endpoint the program calls, acting on a backend state \<open>'d\<close>. A call either is
  rejected (\<open>Inl\<close>) or resolves to a response (\<open>Inr\<close>).
\<close>

record 'd drive =
  files_create :: "drive_file \<Rightarrow> media option \<Rightarrow> string \<Rightarrow> 'd \<Rightarrow> (error + drive_file response) \<times> 'd"
  permissions_create :: "string option \<Rightarrow> string \<Rightarrow> string \<Rightarrow> 'd \<Rightarrow> (error + unit response) \<times> 'd"
  files_get :: "string \<Rightarrow> string \<Rightarrow> 'd \<Rightarrow> (error + drive_file response) \<times> 'd"
  files_update :: "string \<Rightarrow> drive_file \<Rightarrow> media \<Rightarrow> string \<Rightarrow> 'd \<Rightarrow> (error + drive_file response) \<times> 'd"
  files_delete :: "string \<Rightarrow> 'd \<Rightarrow> (error + unit response) \<times> 'd"
  files_list :: "string \<Rightarrow> string \<Rightarrow> 'd \<Rightarrow> (error + drive_file list response) \<times> 'd"

subsection \<open>Effects and the world\<close>

text \<open>
  Every backend call is recorded with its arguments and its outcome when it completes;
  so are the removal of a local file and a line written to the error console.
\<close>

datatype event =
    FilesCreate drive_file "media option" string "error + drive_file response"
  | PermissionsCreate "string option" string string "error + unit response"
  | FilesGet string string "error + drive_file response"
  | FilesUpdate string drive_file media string "error + drive_file response"
  | FilesDelete string "error + unit response"
  | FilesList string string "error + drive_file list response"
  | UnlinkSync string "error + unit"
  | ConsoleError string error

fun is_remote_call :: "event \<Rightarrow> bool" where
  "is_remote_call (UnlinkSync p r) = False"
| "is_remote_call (ConsoleError m e) = False"
| "is_remote_call ev = True"

fun is_cleanup :: "event \<Rightarrow> bool" where
  "is_cleanup (UnlinkSync p r) = True"
| "is_cleanup ev = False"

record 'd world =
  disk :: "string \<rightharpoonup> string"
  now :: nat
  remote :: 'd
  trace :: "event list"

text \<open>
  The world with the labels of its console lines blanked: two worlds that agree under
  \<open>quiet\<close> have the same disk, clock and backend state and the same events in the
  same order, console lines with the same errors included, and can differ only in the
  labels of those lines.
\<close>

fun unlabel :: "event \<Rightarrow> event" where
  "unlabel (ConsoleError m e) = ConsoleError [] e"
| "unlabel ev = ev"

definition quiet :: "'d world \<Rightarrow> 'd world" where
  "quiet w = w\<lparr>trace := map unlabel (trace w)\<rparr>"

type_synonym ('d, 'a) action = "'d world \<Rightarrow> (error + 'a) \<times> 'd world"

definition record_event :: "event \<Rightarrow> 'd world \<Rightarrow> 'd world" where
  "record_event ev w = w\<lparr>trace := trace w @ [ev]\<rparr>"

definition call_files_create ::
  "'d drive \<Rightarrow> drive_file \<Rightarrow> media option \<Rightarrow> string \<Rightarrow> ('d, drive_file response) action" where
  "call_files_create drive resource m fmask w =
     (case files_create drive resource m fmask (remote w) of
        (r, d) \<Rightarrow> (r, record_event (FilesCreate resource m fmask r) (w\<lparr>remote := d\<rparr>)))"

definition call_permissions_create ::
  "'d drive \<Rightarrow> string option \<Rightarrow> string \<Rightarrow> string \<Rightarrow> ('d, unit response) action" where
  "call_permissions_create drive fileId role type w =
     (case permissions_create drive fileId role type (remote w) of
        (r, d) \<Rightarrow> (r, record_event (PermissionsCreate fileId role type r) (w\<lparr>remote := d\<rparr>)))"

definition call_files_get ::
  "'d drive \<Rightarrow> string \<Rightarrow> string \<Rightarrow> ('d, drive_file response) action" where
  "call_files_get drive fileId fmask w =
     (case files_get drive fileId fmask (remote w) of
        (r, d) \<Rightarrow> (r, record_event (FilesGet fileId fmask r) (w\<lparr>remote := d\<rparr>)))"

definition call_files_update ::
  "'d drive \<Rightarrow> string \<Rightarrow> drive_file \<Rightarrow> media \<Rightarrow> string \<Rightarrow> ('d, drive_file response) action" where
  "call_files_update drive fileId resource m fmask w =
     (case files_update drive fileId resource m fmask (remote w) of
        (r, d) \<Rightarrow> (r, record_event (FilesUpdate fileId resource m fmask r) (w\<lparr>remote := d\<rparr>)))"

definition call_files_delete :: "'d drive \<Rightarrow> string \<Rightarrow> ('d, unit response) action" where
  "call_files_delete drive fileId w =
     (case files_delete drive fileId (remote w) of
        (r, d) \<Rightarrow> (r, record_event (FilesDelete fileId r) (w\<lparr>remote := d\<rparr>)))"

definition call_files_list ::
  "'d drive \<Rightarrow> string \<Rightarrow> string \<Rightarrow> ('d, drive_file list response) action" where
  "call_files_list drive q fmask w =
     (case files_list drive q fmask (remote w) of
        (r, d) \<Rightarrow> (r, record_event (FilesList q fmask r) (w\<lparr>remote := d\<rparr>)))"

text \<open>
  \<^verbatim>\<open>fs.unlinkSync\<close> removes the file at the path and throws when there is none.
\<close>

definition unlinkSync :: "string \<Rightarrow> ('d, unit) action" where
  "unlinkSync p w =
     (case disk w p of
        None \<Rightarrow> (Inl (ENOENT p), record_event (UnlinkSync p (Inl (ENOENT p))) w)
      | Some c \<Rightarrow> (Inr (), record_event (UnlinkSync p (Inr ())) (w\<lparr>disk := (disk w)(p := None)\<rparr>)))"

text \<open>Sequencing of awaited steps: a rejected step ends the sequence with its error.\<close>

definition andThen :: "('d, 'a) action \<Rightarrow> ('a \<Rightarrow> ('d, 'b) action) \<Rightarrow> ('d, 'b) action" where
  "andThen m f w = (case m w of (Inl e, w1) \<Rightarrow> (Inl e, w1) | (Inr x, w1) \<Rightarrow> f x w1)"

definition return :: "'a \<Rightarrow> ('d, 'a) action" where
  "return x w = (Inr x, w)"

text \<open>
  \<^verbatim>\<open>try { ... } catch (error) { console.error(msg, error); throw error; }\<close>:
  the error is written to the console and thrown again.
\<close>

definition tryCatch :: "string \<Rightarrow> ('d, 'a) action \<Rightarrow> ('d, 'a) action" where
  "tryCatch msg m w =
     (case m w of
        (Inl e, w1) \<Rightarrow> (Inl e, record_event (ConsoleError msg e) w1)
      | (Inr x, w1) \<Rightarrow> (Inr x, w1))"

text \<open>A JavaScript string used as a condition is true when it is present and not empty.\<close>

fun truthy :: "string option \<Rightarrow> bool" where
  "truthy None = False"
| "truthy (Some s) = (s \<noteq> [])"

text \<open>A value inside a template literal: an absent one prints as \<^verbatim>\<open>undefined\<close>.\<close>

fun template :: "string option \<Rightarrow> string" where
  "template None = ''undefined''"
| "template (Some s) = s"

section \<open>Local staging\<close>

text \<open>
  The file object that multer hands to a route (\<^verbatim>\<open>req.file\<close>) and the multipart
  part it is made from. A request carries at most one file part.
\<close>

record file_info =
  fieldname :: string
  originalname :: string
  mimetype :: string

record part = file_info +
  content :: string

record upload_file = file_info +
  destination :: string
  filename :: string
  path :: string

definition imgDir :: "string \<Rightarrow> string" where
  "imgDir dirname = path_join dirname ''img''"

definition uploadsDir :: "string \<Rightarrow> string" where
  "uploadsDir dirname = path_join dirname ''uploads''"

text \<open>
  The disk storage of the Drive gateway: \<^verbatim>\<open>destination\<close> answers the uploads
  directory for every file, \<^verbatim>\<open>filename\<close> the arrival time, a dash and the original
  name.
\<close>

definition storage_destination :: "string \<Rightarrow> part \<Rightarrow> string" where
  "storage_destination dirname file = uploadsDir dirname"

definition storage_filename :: "nat \<Rightarrow> part \<Rightarrow> string" where
  "storage_filename t file = string_of_nat t @ ''-'' @ originalname file"

text \<open>
  The two disk storages of the local-only server (the second program of the repository):
  one for images, one for general files.
\<close>

definition imageStorage_destination :: "string \<Rightarrow> part \<Rightarrow> string" where
  "imageStorage_destination dirname file = imgDir dirname"

definition fileStorage_destination :: "string \<Rightarrow> part \<Rightarrow> string" where
  "fileStorage_destination dirname file = uploadsDir dirname"

text \<open>
  \<^verbatim>\<open>multer({ storage }).single(field)\<close>: a request without a file part passes with
  \<^verbatim>\<open>req.file\<close> undefined; a file part under the expected field is written to
  \<^verbatim>\<open>path.join(destination, filename)\<close>; a file part under another field is refused
  and nothing is written.
\<close>

definition single ::
  "(part \<Rightarrow> string) \<Rightarrow> string \<Rightarrow> part option \<Rightarrow> ('d, upload_file option) action" where
  "single dest field p w =
     (case p of
        None \<Rightarrow> (Inr None, w)
      | Some file \<Rightarrow>
          if fieldname file \<noteq> field then (Inl (MulterError ''Unexpected field''), w)
          else
            let d = dest file;
                n = storage_filename (now w) file;
                staged = \<lparr>fieldname = fieldname file, originalname = originalname file,
                           mimetype = mimetype file, destination = d, filename = n,
                           path = path_join d n\<rparr>
            in (Inr (Some staged), w\<lparr>disk := (disk w)(path_join d n \<mapsto> content file)\<rparr>))"

definition upload_single :: "string \<Rightarrow> string \<Rightarrow> part option \<Rightarrow> ('d, upload_file option) action" where
  "upload_single dirname field = single (storage_destination dirname) field"

definition uploadImage_single :: "string \<Rightarrow> string \<Rightarrow> part option \<Rightarrow> ('d, upload_file option) action" where
  "uploadImage_single dirname field = single (imageStorage_destination dirname) field"

definition uploadFile_single :: "string \<Rightarrow> string \<Rightarrow> part option \<Rightarrow> ('d, upload_file option) action" where
  "uploadFile_single dirname field = single (fileStorage_destination dirname) field"

section \<open>Google Drive functions\<close>

text \<open>
  Each function of the program is one definition, named as in the source, with the
  backend as its first argument. The download function, which pipes a stream of the
  backend into the response, is left out.
\<close>

definition folder_mime :: string where
  "folder_mime = ''application/vnd.google-apps.folder''"

text \<open>\<^verbatim>\<open>x ? [x] : []\<close> on an optional identifier.\<close>

fun parents_of :: "string option \<Rightarrow> string list" where
  "parents_of None = []"
| "parents_of (Some x) = (if x \<noteq> [] then [x] else [])"

text \<open>
  The two objects a push is made of: the metadata of the request and the media, whose
  body is what a read stream of the staged path yields (nothing when there is no file at
  the path).
\<close>

definition upload_fileMetadata :: "upload_file \<Rightarrow> string \<Rightarrow> string option \<Rightarrow> drive_file" where
  "upload_fileMetadata file fileType folderId =
     no_file\<lparr>file_name := Some (originalname file), mimeType := Some fileType,
       parents := Some (parents_of folderId)\<rparr>"

definition update_fileMetadata :: "upload_file \<Rightarrow> string \<Rightarrow> drive_file" where
  "update_fileMetadata newFile fileType =
     no_file\<lparr>file_name := Some (originalname newFile), mimeType := Some fileType\<rparr>"

definition createReadStream :: "string \<Rightarrow> 'd world \<Rightarrow> string option" where
  "createReadStream p w = disk w p"

definition media_of :: "upload_file \<Rightarrow> string \<Rightarrow> 'd world \<Rightarrow> media" where
  "media_of file fileType w =
     \<lparr>media_mimeType = fileType, body = createReadStream (path file) w\<rparr>"

definition uploadFileToDrive ::
  "'d drive \<Rightarrow> upload_file \<Rightarrow> string \<Rightarrow> string option \<Rightarrow> ('d, drive_file) action" where
  "uploadFileToDrive drive file fileType folderId w =
     tryCatch ''Error uploading file to Drive:''
       (let fileMetadata = upload_fileMetadata file fileType folderId;
            m = media_of file fileType w
        in andThen (call_files_create drive fileMetadata (Some m) ''id, name'') (\<lambda>response.
           andThen (call_permissions_create drive (file_id (data response)) ''reader'' ''anyone'') (\<lambda>granted.
           andThen (unlinkSync (path file)) (\<lambda>u.
           return (data response))))) w"

definition getFileMetadataFromDrive :: "'d drive \<Rightarrow> string \<Rightarrow> ('d, drive_file) action" where
  "getFileMetadataFromDrive drive fileId =
     tryCatch ''Error getting file metadata from Drive:''
       (andThen (call_files_get drive fileId
                   ''id, name, mimeType, webViewLink, webContentLink, parents'') (\<lambda>response.
          let metadata = data response
          in return (metadata\<lparr>publicDownloadLink :=
                       Some (''https://drive.google.com/uc?id='' @ template (file_id metadata))\<rparr>)))"

definition updateFileInDrive ::
  "'d drive \<Rightarrow> string \<Rightarrow> upload_file \<Rightarrow> string \<Rightarrow> ('d, drive_file) action" where
  "updateFileInDrive drive fileId newFile fileType w =
     tryCatch ''Error updating file in Drive:''
       (let fileMetadata = update_fileMetadata newFile fileType;
            m = media_of newFile fileType w
        in andThen (call_files_update drive fileId fileMetadata m ''id, name'') (\<lambda>response.
           andThen (unlinkSync (path newFile)) (\<lambda>u.
           return (data response)))) w"

definition deleteFileFromDrive :: "'d drive \<Rightarrow> string \<Rightarrow> ('d, nat) action" where
  "deleteFileFromDrive drive fileId =
     tryCatch ''Error deleting file from Drive:''
       (andThen (call_files_delete drive fileId) (\<lambda>response. return (status response)))"

definition search_query :: "string \<Rightarrow> string" where
  "search_query fileName = ''name contains '' @ [quote] @ fileName @ [quote]"

definition searchFileInDrive :: "'d drive \<Rightarrow> string \<Rightarrow> ('d, drive_file list) action" where
  "searchFileInDrive drive fileName =
     tryCatch ''Error searching file in Drive:''
       (andThen (call_files_list drive (search_query fileName) ''files(id, name, mimeType)'')
          (\<lambda>response. return (data response)))"

definition all_files_query :: "string option \<Rightarrow> string" where
  "all_files_query fileType =
     (if truthy fileType then ''mimeType = '' @ [quote] @ template fileType @ [quote]
      else ''mimeType != '' @ [quote] @ folder_mime @ [quote])"

definition getAllFilesFromDrive :: "'d drive \<Rightarrow> string option \<Rightarrow> ('d, drive_file list) action" where
  "getAllFilesFromDrive drive fileType =
     tryCatch ''Error getting all files from Drive:''
       (andThen (call_files_list drive (all_files_query fileType)
                   ''files(id, name, mimeType, webViewLink, webContentLink)'')
          (\<lambda>response. return (data response)))"

definition getAllFoldersFromDrive :: "'d drive \<Rightarrow> ('d, drive_file list) action" where
  "getAllFoldersFromDrive drive =
     tryCatch ''Error getting all folders from Drive:''
       (andThen (call_files_list drive (''mimeType = '' @ [quote] @ folder_mime @ [quote])
                   ''files(id, name)'')
          (\<lambda>response. return (data response)))"

definition createFolderInDrive :: "'d drive \<Rightarrow> string \<Rightarrow> string option \<Rightarrow> ('d, drive_file) action" where
  "createFolderInDrive drive folderName parentId =
     tryCatch ''Error creating folder in Drive:''
       (let fileMetadata = no_file\<lparr>file_name := Some folderName,
                                   mimeType := Some folder_mime,
                                   parents := Some (parents_of parentId)\<rparr>
        in andThen (call_files_create drive fileMetadata None ''id, name'')
             (\<lambda>response. return (data response)))"

definition deleteFolderFromDrive :: "'d drive \<Rightarrow> string \<Rightarrow> ('d, nat) action" where
  "deleteFolderFromDrive drive folderId =
     tryCatch ''Error deleting folder from Drive:''
       (andThen (call_files_delete drive folderId) (\<lambda>response. return (status response)))"

section \<open>Google Drive routes\<close>

datatype body =
    Send string
  | JsonMessageFile string drive_file
  | JsonMetadata drive_file
  | JsonFiles "drive_file list"
  | JsonFolders "drive_file list"
  | JsonMessageFolder string drive_file
  | ErrorPage error

record http_response =
  res_status :: nat
  res_body :: body

definition reply :: "nat \<Rightarrow> body \<Rightarrow> http_response" where
  "reply code b = \<lparr>res_status = code, res_body = b\<rparr>"

text \<open>
  A route is its middleware followed by its handler. An error of the middleware goes to
  the framework's error handler, which answers 500.
\<close>

definition post_drive_upload_image ::
  "'d drive \<Rightarrow> string \<Rightarrow> part option \<Rightarrow> 'd world \<Rightarrow> http_response \<times> 'd world" where
  "post_drive_upload_image drive dirname p w =
     (case upload_single dirname ''image'' p w of
        (Inl e, w1) \<Rightarrow> (reply 500 (ErrorPage e), w1)
      | (Inr None, w1) \<Rightarrow> (reply 400 (Send ''No image uploaded.''), w1)
      | (Inr (Some file), w1) \<Rightarrow>
          (case uploadFileToDrive drive file (mimetype file) None w1 of
             (Inr result, w2) \<Rightarrow>
               (reply 200 (JsonMessageFile ''Image uploaded to Drive successfully'' result), w2)
           | (Inl e, w2) \<Rightarrow> (reply 500 (Send ''Failed to upload image to Drive.''), w2)))"

definition post_drive_upload_file ::
  "'d drive \<Rightarrow> string \<Rightarrow> part option \<Rightarrow> 'd world \<Rightarrow> http_response \<times> 'd world" where
  "post_drive_upload_file drive dirname p w =
     (case upload_single dirname ''file'' p w of
        (Inl e, w1) \<Rightarrow> (reply 500 (ErrorPage e), w1)
      | (Inr None, w1) \<Rightarrow> (reply 400 (Send ''No file uploaded.''), w1)
      | (Inr (Some file), w1) \<Rightarrow>
          (case uploadFileToDrive drive file (mimetype file) None w1 of
             (Inr result, w2) \<Rightarrow>
               (reply 200 (JsonMessageFile ''File uploaded to Drive successfully'' result), w2)
           | (Inl e, w2) \<Rightarrow> (reply 500 (Send ''Failed to upload file to Drive.''), w2)))"

definition get_drive_file_metadata ::
  "'d drive \<Rightarrow> string \<Rightarrow> 'd world \<Rightarrow> http_response \<times> 'd world" where
  "get_drive_file_metadata drive fileId w =
     (case getFileMetadataFromDrive drive fileId w of
        (Inr metadata, w1) \<Rightarrow> (reply 200 (JsonMetadata metadata), w1)
      | (Inl e, w1) \<Rightarrow> (reply 500 (Send ''Failed to get file metadata from Drive.''), w1))"

definition put_drive_file ::
  "'d drive \<Rightarrow> string \<Rightarrow> string \<Rightarrow> part option \<Rightarrow> 'd world \<Rightarrow> http_response \<times> 'd world" where
  "put_drive_file drive dirname fileId p w =
     (case upload_single dirname ''file'' p w of
        (Inl e, w1) \<Rightarrow> (reply 500 (ErrorPage e), w1)
      | (Inr None, w1) \<Rightarrow> (reply 400 (Send ''No file provided for update.''), w1)
      | (Inr (Some file), w1) \<Rightarrow>
          (case updateFileInDrive drive fileId file (mimetype file) w1 of
             (Inr result, w2) \<Rightarrow>
               (reply 200 (JsonMessageFile ''File updated in Drive successfully'' result), w2)
           | (Inl e, w2) \<Rightarrow> (reply 500 (Send ''Failed to update file in Drive.''), w2)))"

definition delete_drive_file ::
  "'d drive \<Rightarrow> string \<Rightarrow> 'd world \<Rightarrow> http_response \<times> 'd world" where
  "delete_drive_file drive fileId w =
     (case deleteFileFromDrive drive fileId w of
        (Inr st, w1) \<Rightarrow>
          if st = 204 then (reply 200 (Send ''File deleted from Drive successfully.''), w1)
          else (reply 500 (Send ''Failed to delete file from Drive.''), w1)
      | (Inl e, w1) \<Rightarrow> (reply 500 (Send ''Failed to delete file from Drive.''), w1))"

definition get_drive_search ::
  "'d drive \<Rightarrow> string \<Rightarrow> 'd world \<Rightarrow> http_response \<times> 'd world" where
  "get_drive_search drive fileName w =
     (case searchFileInDrive drive fileName w of
        (Inr fs, w1) \<Rightarrow> (reply 200 (JsonFiles fs), w1)
      | (Inl e, w1) \<Rightarrow> (reply 500 (Send ''Failed to search for files in Drive.''), w1))"

definition get_drive_files :: "'d drive \<Rightarrow> 'd world \<Rightarrow> http_response \<times> 'd world" where
  "get_drive_files drive w =
     (case getAllFilesFromDrive drive None w of
        (Inr fs, w1) \<Rightarrow> (reply 200 (JsonFiles fs), w1)
      | (Inl e, w1) \<Rightarrow> (reply 500 (Send ''Failed to get all files from Drive.''), w1))"

definition get_drive_folders :: "'d drive \<Rightarrow> 'd world \<Rightarrow> http_response \<times> 'd world" where
  "get_drive_folders drive w =
     (case getAllFoldersFromDrive drive w of
        (Inr fs, w1) \<Rightarrow> (reply 200 (JsonFolders fs), w1)
      | (Inl e, w1) \<Rightarrow> (reply 500 (Send ''Failed to get all folders from Drive.''), w1))"

text \<open>
  The body of \<^verbatim>\<open>POST /drive/folder\<close> carries \<^verbatim>\<open>folderName\<close> and
  \<^verbatim>\<open>parentId\<close>, each possibly absent. \<^verbatim>\<open>!folderName\<close> holds for an absent and for
  an empty name.
\<close>

definition post_drive_folder ::
  "'d drive \<Rightarrow> string option \<Rightarrow> string option \<Rightarrow> 'd world \<Rightarrow> http_response \<times> 'd world" where
  "post_drive_folder drive folderName parentId w =
     (case folderName of
        None \<Rightarrow> (reply 400 (Send ''Folder name is required.''), w)
      | Some n \<Rightarrow>
          if n = [] then (reply 400 (Send ''Folder name is required.''), w)
          else
            (case createFolderInDrive drive n parentId w of
               (Inr folder, w1) \<Rightarrow>
                 (reply 200 (JsonMessageFolder ''Folder created successfully'' folder), w1)
             | (Inl e, w1) \<Rightarrow> (reply 500 (Send ''Failed to create folder in Drive.''), w1)))"

definition delete_drive_folder ::
  "'d drive \<Rightarrow> string \<Rightarrow> 'd world \<Rightarrow> http_response \<times> 'd world" where
  "delete_drive_folder drive folderId w =
     (case deleteFolderFromDrive drive folderId w of
        (Inr st, w1) \<Rightarrow>
          if st = 204 then (reply 200 (Send ''Folder deleted successfully.''), w1)
          else (reply 500 (Send ''Failed to delete folder from Drive.''), w1)
      | (Inl e, w1) \<Rightarrow> (reply 500 (Send ''Failed to delete folder from Drive.''), w1))"

section \<open>The query language of the backend\<close>

text \<open>
  The queries the program sends are a field, an operator and a string between single
  quotes. Inside the quotes a backslash escapes the character after it, so a single quote
  of the string itself is written with a backslash before it; the first quote without
  one ends the string, and nothing may follow it.
\<close>

datatype query = NameContains string | MimeTypeIs string | MimeTypeIsNot string

fun strip_prefix :: "string \<Rightarrow> string \<Rightarrow> string option" where
  "strip_prefix [] s = Some s"
| "strip_prefix (p # ps) [] = None"
| "strip_prefix (p # ps) (c # cs) = (if p = c then strip_prefix ps cs else None)"

fun read_literal :: "string \<Rightarrow> (string \<times> string) option" where
  "read_literal [] = None"
| "read_literal (c # cs) =
     (if c = quote then Some ([], cs)
      else if c = backslash then
        (case cs of
           [] \<Rightarrow> None
         | e # rest \<Rightarrow> map_option (\<lambda>(l, r). (e # l, r)) (read_literal rest))
      else map_option (\<lambda>(l, r). (c # l, r)) (read_literal cs))"

definition quoted_literal :: "string \<Rightarrow> string option" where
  "quoted_literal s =
     (case s of
        [] \<Rightarrow> None
      | c # cs \<Rightarrow>
          if c \<noteq> quote then None
          else (case read_literal cs of
                  None \<Rightarrow> None
                | Some (l, r) \<Rightarrow> if r = [] then Some l else None))"

definition parse_query :: "string \<Rightarrow> query option" where
  "parse_query q =
     (case strip_prefix ''name contains '' q of
        Some r \<Rightarrow> map_option NameContains (quoted_literal r)
      | None \<Rightarrow>
     (case strip_prefix ''mimeType != '' q of
        Some r \<Rightarrow> map_option MimeTypeIsNot (quoted_literal r)
      | None \<Rightarrow>
     (case strip_prefix ''mimeType = '' q of
        Some r \<Rightarrow> map_option MimeTypeIs (quoted_literal r)
      | None \<Rightarrow> None)))"

fun contains :: "string \<Rightarrow> string \<Rightarrow> bool" where
  "contains [] s = (s = [])"
| "contains (c # cs) s = (strip_prefix s (c # cs) \<noteq> None \<or> contains cs s)"

fun matches :: "query \<Rightarrow> drive_file \<Rightarrow> bool" where
  "matches (NameContains s) f = (case file_name f of None \<Rightarrow> False | Some n \<Rightarrow> contains n s)"
| "matches (MimeTypeIs t) f = (mimeType f = Some t)"
| "matches (MimeTypeIsNot t) f = (mimeType f \<noteq> Some t)"

text \<open>
  A backend honours its queries when every list it answers holds only files that match
  the query it was sent.
\<close>

definition honours_queries :: "'d drive \<Rightarrow> bool" where
  "honours_queries drive \<longleftrightarrow>
     (\<forall>q fmask d r d' qq.
        files_list drive q fmask d = (Inr r, d') \<and> parse_query q = Some qq \<longrightarrow>
        (\<forall>f \<in> set (data r). matches qq f))"

text \<open>
  A backend honours the field mask \<^verbatim>\<open>id, name\<close> of a create request when the file
  it answers carries no other property.
\<close>

definition only_id_name :: "drive_file \<Rightarrow> bool" where
  "only_id_name f \<longleftrightarrow>
     mimeType f = None \<and> webViewLink f = None \<and> webContentLink f = None \<and>
     parents f = None \<and> publicDownloadLink f = None"

definition honours_field_mask :: "'d drive \<Rightarrow> bool" where
  "honours_field_mask drive \<longleftrightarrow>
     (\<forall>resource m d r d'. files_create drive resource m ''id, name'' d = (Inr r, d') \<longrightarrow>
        only_id_name (data r))"

section \<open>An in-memory backend\<close>

text \<open>
  A small backend that keeps its files in a list, for instantiating the statements below
  at concrete inputs. It numbers the files it creates, refuses a parent or a file it does
  not hold, answers a delete with status 204 and filters a list by the query.
\<close>

record mem =
  next_id :: nat
  stored :: "drive_file list"

definition holds :: "mem \<Rightarrow> string \<Rightarrow> bool" where
  "holds d i = (\<exists>f \<in> set (stored d). file_id f = Some i)"

definition mem_create ::
  "drive_file \<Rightarrow> media option \<Rightarrow> string \<Rightarrow> mem \<Rightarrow> (error + drive_file response) \<times> mem" where
  "mem_create resource m fmask d =
     (if \<exists>p \<in> set (case parents resource of None \<Rightarrow> [] | Some ps \<Rightarrow> ps). \<not> holds d p
      then (Inl (DriveError ''File not found''), d)
      else
        let i = ''f'' @ string_of_nat (next_id d)
        in (Inr \<lparr>status = 200,
                 data = no_file\<lparr>file_id := Some i, file_name := file_name resource\<rparr>\<rparr>,
            \<lparr>next_id = Suc (next_id d), stored = stored d @ [resource\<lparr>file_id := Some i\<rparr>]\<rparr>))"

definition mem_grant ::
  "string option \<Rightarrow> string \<Rightarrow> string \<Rightarrow> mem \<Rightarrow> (error + unit response) \<times> mem" where
  "mem_grant fileId role type d =
     (case fileId of
        None \<Rightarrow> (Inl (DriveError ''File not found''), d)
      | Some i \<Rightarrow>
          if holds d i then (Inr \<lparr>status = 200, data = ()\<rparr>, d)
          else (Inl (DriveError ''File not found''), d))"

definition mem_get :: "string \<Rightarrow> string \<Rightarrow> mem \<Rightarrow> (error + drive_file response) \<times> mem" where
  "mem_get fileId fmask d =
     (case find (\<lambda>f. file_id f = Some fileId) (stored d) of
        None \<Rightarrow> (Inl (DriveError ''File not found''), d)
      | Some f \<Rightarrow> (Inr \<lparr>status = 200, data = f\<rparr>, d))"

definition mem_update ::
  "string \<Rightarrow> drive_file \<Rightarrow> media \<Rightarrow> string \<Rightarrow> mem \<Rightarrow> (error + drive_file response) \<times> mem" where
  "mem_update fileId resource m fmask d =
     (if holds d fileId
      then (Inr \<lparr>status = 200,
                 data = no_file\<lparr>file_id := Some fileId, file_name := file_name resource\<rparr>\<rparr>,
            d\<lparr>stored := map (\<lambda>f. if file_id f = Some fileId
                                   then f\<lparr>file_name := file_name resource,
                                          mimeType := mimeType resource\<rparr>
                                   else f) (stored d)\<rparr>)
      else (Inl (DriveError ''File not found''), d))"

definition mem_delete :: "string \<Rightarrow> mem \<Rightarrow> (error + unit response) \<times> mem" where
  "mem_delete fileId d =
     (if holds d fileId
      then (Inr \<lparr>status = 204, data = ()\<rparr>,
            d\<lparr>stored := filter (\<lambda>f. file_id f \<noteq> Some fileId) (stored d)\<rparr>)
      else (Inl (DriveError ''File not found''), d))"

definition mem_list :: "string \<Rightarrow> string \<Rightarrow> mem \<Rightarrow> (error + drive_file list response) \<times> mem" where
  "mem_list q fmask d =
     (case parse_query q of
        None \<Rightarrow> (Inl (DriveError ''Invalid query''), d)
      | Some qq \<Rightarrow> (Inr \<lparr>status = 200, data = filter (matches qq) (stored d)\<rparr>, d))"

definition mem_drive :: "mem drive" where
  "mem_drive = \<lparr>files_create = mem_create, permissions_create = mem_grant,
     files_get = mem_get, files_update = mem_update, files_delete = mem_delete,
     files_list = mem_list\<rparr>"

text \<open>The same backend, except that it refuses every permission grant.\<close>

definition private_drive :: "mem drive" where
  "private_drive =
     mem_drive\<lparr>permissions_create := (\<lambda>fileId role type d. (Inl (DriveError ''Forbidden''), d))\<rparr>"

text \<open>The same backend, except that it answers a delete with status 200.\<close>

definition lenient_drive :: "mem drive" where
  "lenient_drive =
     mem_drive\<lparr>files_delete := (\<lambda>fileId d. (Inr \<lparr>status = 200, data = ()\<rparr>, d))\<rparr>"

text \<open>
  A backend holding one folder and one image, and a world with one staged file on the
  disk.
\<close>

definition a_folder :: drive_file where
  "a_folder = no_file\<lparr>file_id := Some ''d1'', file_name := Some ''docs'',
     mimeType := Some folder_mime\<rparr>"

definition an_image :: drive_file where
  "an_image = no_file\<lparr>file_id := Some ''i1'', file_name := Some ''photo.png'',
     mimeType := Some ''image/png''\<rparr>"

definition mem0 :: mem where
  "mem0 = \<lparr>next_id = 0, stored = [a_folder, an_image]\<rparr>"

definition staged0 :: upload_file where
  "staged0 = \<lparr>fieldname = ''file'', originalname = ''photo.png'', mimetype = ''image/png'',
     destination = ''/srv/uploads'', filename = ''1700-photo.png'',
     path = ''/srv/uploads/1700-photo.png''\<rparr>"

definition world0 :: "mem world" where
  "world0 = \<lparr>disk = [''/srv/uploads/1700-photo.png'' \<mapsto> ''0123456789''], now = 1700,
     remote = mem0, trace = []\<rparr>"

text \<open>What the backend answers when the staged file is created, and its state then.\<close>

definition created0 :: "drive_file response" where
  "created0 = \<lparr>status = 200,
     data = no_file\<lparr>file_id := Some ''f0'', file_name := Some ''photo.png''\<rparr>\<rparr>"

definition mem1 :: mem where
  "mem1 = \<lparr>next_id = 1, stored = [a_folder, an_image,
     (upload_fileMetadata staged0 ''image/png'' None)\<lparr>file_id := Some ''f0''\<rparr>]\<rparr>"

definition updated0 :: "drive_file response" where
  "updated0 = \<lparr>status = 200,
     data = no_file\<lparr>file_id := Some ''i1'', file_name := Some ''photo.png''\<rparr>\<rparr>"

definition part0 :: part where
  "part0 = \<lparr>fieldname = ''image'', originalname = ''photo.png'', mimetype = ''image/png'',
     content = ''0123456789''\<rparr>"

section \<open>Properties\<close>

subsection \<open>Unfolding the operations\<close>

lemmas call_defs = call_files_create_def call_permissions_create_def call_files_get_def
  call_files_update_def call_files_delete_def call_files_list_def

lemmas act_defs = andThen_def return_def tryCatch_def record_event_def unlinkSync_def

lemmas mem_defs = mem_drive_def mem_create_def mem_grant_def mem_get_def mem_update_def
  mem_delete_def mem_list_def holds_def private_drive_def lenient_drive_def

lemmas sample_defs = world0_def mem0_def staged0_def part0_def a_folder_def an_image_def
  no_file_def folder_mime_def

text \<open>The three ways an upload can go, by the outcome of its two backend calls.\<close>

lemma upload_create_fails:
  assumes "files_create drive (upload_fileMetadata file fileType folderId)
             (Some (media_of file fileType w)) ''id, name'' (remote w) = (Inl e, d1)"
  shows "fst (uploadFileToDrive drive file fileType folderId w) = Inl e"
    and "disk (snd (uploadFileToDrive drive file fileType folderId w)) = disk w"
    and "trace (snd (uploadFileToDrive drive file fileType folderId w)) = trace w @
          [FilesCreate (upload_fileMetadata file fileType folderId)
             (Some (media_of file fileType w)) ''id, name'' (Inl e),
           ConsoleError ''Error uploading file to Drive:'' e]"
  using assms by (simp_all add: uploadFileToDrive_def call_defs act_defs Let_def)

lemma upload_grant_fails:
  assumes "files_create drive (upload_fileMetadata file fileType folderId)
             (Some (media_of file fileType w)) ''id, name'' (remote w) = (Inr r1, d1)"
      and "permissions_create drive (file_id (data r1)) ''reader'' ''anyone'' d1 = (Inl e, d2)"
  shows "fst (uploadFileToDrive drive file fileType folderId w) = Inl e"
    and "disk (snd (uploadFileToDrive drive file fileType folderId w)) = disk w"
    and "trace (snd (uploadFileToDrive drive file fileType folderId w)) = trace w @
          [FilesCreate (upload_fileMetadata file fileType folderId)
             (Some (media_of file fileType w)) ''id, name'' (Inr r1),
           PermissionsCreate (file_id (data r1)) ''reader'' ''anyone'' (Inl e),
           ConsoleError ''Error uploading file to Drive:'' e]"
  using assms by (simp_all add: uploadFileToDrive_def call_defs act_defs Let_def)

lemma upload_pushed:
  assumes "files_create drive (upload_fileMetadata file fileType folderId)
             (Some (media_of file fileType w)) ''id, name'' (remote w) = (Inr r1, d1)"
      and "permissions_create drive (file_id (data r1)) ''reader'' ''anyone'' d1 = (Inr r2, d2)"
  shows "disk (snd (uploadFileToDrive drive file fileType folderId w)) = (disk w)(path file := None)"
    and "disk w (path file) \<noteq> None \<Longrightarrow>
           fst (uploadFileToDrive drive file fileType folderId w) = Inr (data r1)"
    and "disk w (path file) \<noteq> None \<Longrightarrow>
           trace (snd (uploadFileToDrive drive file fileType folderId w)) = trace w @
             [FilesCreate (upload_fileMetadata file fileType folderId)
                (Some (media_of file fileType w)) ''id, name'' (Inr r1),
              PermissionsCreate (file_id (data r1)) ''reader'' ''anyone'' (Inr r2),
              UnlinkSync (path file) (Inr ())]"
    and "disk w (path file) = None \<Longrightarrow>
           fst (uploadFileToDrive drive file fileType folderId w) = Inl (ENOENT (path file))"
    and "disk w (path file) = None \<Longrightarrow>
           trace (snd (uploadFileToDrive drive file fileType folderId w)) = trace w @
             [FilesCreate (upload_fileMetadata file fileType folderId)
                (Some (media_of file fileType w)) ''id, name'' (Inr r1),
              PermissionsCreate (file_id (data r1)) ''reader'' ''anyone'' (Inr r2),
              UnlinkSync (path file) (Inl (ENOENT (path file))),
              ConsoleError ''Error uploading file to Drive:'' (ENOENT (path file))]"
  using assms
  by (auto simp add: uploadFileToDrive_def call_defs act_defs Let_def split: option.splits)

text \<open>The two ways an update can go.\<close>

lemma update_fails:
  assumes "files_update drive fileId (update_fileMetadata newFile fileType)
             (media_of newFile fileType w) ''id, name'' (remote w) = (Inl e, d1)"
  shows "fst (updateFileInDrive drive fileId newFile fileType w) = Inl e"
    and "disk (snd (updateFileInDrive drive fileId newFile fileType w)) = disk w"
    and "trace (snd (updateFileInDrive drive fileId newFile fileType w)) = trace w @
          [FilesUpdate fileId (update_fileMetadata newFile fileType)
             (media_of newFile fileType w) ''id, name'' (Inl e),
           ConsoleError ''Error updating file in Drive:'' e]"
  using assms by (simp_all add: updateFileInDrive_def call_defs act_defs Let_def)

lemma update_pushed:
  assumes "files_update drive fileId (update_fileMetadata newFile fileType)
             (media_of newFile fileType w) ''id, name'' (remote w) = (Inr r1, d1)"
  shows "disk (snd (updateFileInDrive drive fileId newFile fileType w)) =
           (disk w)(path newFile := None)"
    and "disk w (path newFile) \<noteq> None \<Longrightarrow>
           fst (updateFileInDrive drive fileId newFile fileType w) = Inr (data r1)"
    and "disk w (path newFile) \<noteq> None \<Longrightarrow>
           trace (snd (updateFileInDrive drive fileId newFile fileType w)) = trace w @
             [FilesUpdate fileId (update_fileMetadata newFile fileType)
                (media_of newFile fileType w) ''id, name'' (Inr r1),
              UnlinkSync (path newFile) (Inr ())]"
    and "disk w (path newFile) = None \<Longrightarrow>
           fst (updateFileInDrive drive fileId newFile fileType w) = Inl (ENOENT (path newFile))"
    and "disk w (path newFile) = None \<Longrightarrow>
           trace (snd (updateFileInDrive drive fileId newFile fileType w)) = trace w @
             [FilesUpdate fileId (update_fileMetadata newFile fileType)
                (media_of newFile fileType w) ''id, name'' (Inr r1),
              UnlinkSync (path newFile) (Inl (ENOENT (path newFile))),
              ConsoleError ''Error updating file in Drive:'' (ENOENT (path newFile))]"
  using assms
  by (auto simp add: updateFileInDrive_def call_defs act_defs Let_def split: option.splits)

lemma upload_returns:
  "uploadFileToDrive drive file fileType folderId w = (Inr r, w') \<Longrightarrow> disk w' (path file) = None"
  by (auto simp add: uploadFileToDrive_def call_defs act_defs Let_def
           split: prod.splits sum.splits option.splits)

lemma upload_throws:
  "uploadFileToDrive drive file fileType folderId w = (Inl e, w') \<Longrightarrow> disk w' = disk w"
  by (auto simp add: uploadFileToDrive_def call_defs act_defs Let_def
           split: prod.splits sum.splits option.splits)

lemma update_returns:
  "updateFileInDrive drive fileId newFile fileType w = (Inr r, w') \<Longrightarrow> disk w' (path newFile) = None"
  by (auto simp add: updateFileInDrive_def call_defs act_defs Let_def
           split: prod.splits sum.splits option.splits)

lemma update_throws:
  "updateFileInDrive drive fileId newFile fileType w = (Inl e, w') \<Longrightarrow> disk w' = disk w"
  by (auto simp add: updateFileInDrive_def call_defs act_defs Let_def
           split: prod.splits sum.splits option.splits)

text \<open>The sample backend on the sample world.\<close>

lemma sample_create:
  "files_create mem_drive (upload_fileMetadata staged0 ''image/png'' None)
     (Some (media_of staged0 ''image/png'' world0)) ''id, name'' (remote world0) =
   (Inr created0, mem1)"
  by (simp add: Let_def mem_defs upload_fileMetadata_def world0_def mem0_def staged0_def digit_def
        created0_def mem1_def)

lemma sample_create_private:
  "files_create private_drive = files_create mem_drive"
  by (simp add: private_drive_def)

lemma sample_grant:
  "permissions_create mem_drive (file_id (data created0)) ''reader'' ''anyone'' mem1 =
   (Inr \<lparr>status = 200, data = ()\<rparr>, mem1)"
  by (simp add: Let_def mem_defs created0_def mem1_def no_file_def)

lemma sample_grant_private:
  "permissions_create private_drive fileId ''reader'' ''anyone'' d =
   (Inl (DriveError ''Forbidden''), d)"
  by (simp add: private_drive_def)

lemma sample_create_orphan:
  "files_create mem_drive (upload_fileMetadata staged0 ''image/png'' (Some ''nope''))
     (Some (media_of staged0 ''image/png'' world0)) ''id, name'' (remote world0) =
   (Inl (DriveError ''File not found''), mem0)"
  by (simp add: Let_def mem_defs upload_fileMetadata_def world0_def mem0_def a_folder_def an_image_def
        no_file_def)

lemma sample_update:
  "files_update mem_drive ''i1'' (update_fileMetadata staged0 ''image/png'')
     (media_of staged0 ''image/png'' world0) ''id, name'' (remote world0) =
   (Inr updated0,
    snd (files_update mem_drive ''i1'' (update_fileMetadata staged0 ''image/png'')
     (media_of staged0 ''image/png'' world0) ''id, name'' (remote world0)))"
  by (simp add: Let_def mem_defs update_fileMetadata_def world0_def mem0_def a_folder_def an_image_def
        no_file_def staged0_def updated0_def)

lemma sample_update_missing:
  "files_update mem_drive ''zz'' (update_fileMetadata staged0 ''image/png'')
     (media_of staged0 ''image/png'' world0) ''id, name'' (remote world0) =
   (Inl (DriveError ''File not found''), mem0)"
  by (simp add: Let_def mem_defs update_fileMetadata_def world0_def mem0_def a_folder_def an_image_def
        no_file_def)

lemma sample_disk: "disk world0 (path staged0) = Some ''0123456789''"
  by (simp add: world0_def staged0_def)

subsection \<open>C1: the staged file is removed exactly when the push succeeds\<close>

text \<open>
  Claim C1. For an upload and for an update: when the remote push succeeds (for an
  upload, the create call and the permission grant), the staged file is no longer on
  the disk when the action returns, and if it was there the action returns the data of
  the push; when the remote push fails, the action fails with the error of the backend
  and the disk is as it was, so a staged file that existed still exists. An action that
  returns a result leaves no staged file; an action that fails leaves the disk untouched.
\<close>

theorem staged_file_removed_iff_push_succeeds:
  fixes drive :: "'d drive"
  shows
    "(\<forall>r1 d1 r2 d2.
        files_create drive (upload_fileMetadata file fileType folderId)
          (Some (media_of file fileType w)) ''id, name'' (remote w) = (Inr r1, d1) \<and>
        permissions_create drive (file_id (data r1)) ''reader'' ''anyone'' d1 = (Inr r2, d2) \<longrightarrow>
          disk (snd (uploadFileToDrive drive file fileType folderId w)) (path file) = None \<and>
          (disk w (path file) \<noteq> None \<longrightarrow>
             fst (uploadFileToDrive drive file fileType folderId w) = Inr (data r1) \<and>
             disk (snd (uploadFileToDrive drive file fileType folderId w)) =
               (disk w)(path file := None)))
   \<and> (\<forall>e d1.
        files_create drive (upload_fileMetadata file fileType folderId)
          (Some (media_of file fileType w)) ''id, name'' (remote w) = (Inl e, d1) \<longrightarrow>
          fst (uploadFileToDrive drive file fileType folderId w) = Inl e \<and>
          disk (snd (uploadFileToDrive drive file fileType folderId w)) = disk w)
   \<and> (\<forall>r1 d1 e d2.
        files_create drive (upload_fileMetadata file fileType folderId)
          (Some (media_of file fileType w)) ''id, name'' (remote w) = (Inr r1, d1) \<and>
        permissions_create drive (file_id (data r1)) ''reader'' ''anyone'' d1 = (Inl e, d2) \<longrightarrow>
          fst (uploadFileToDrive drive file fileType folderId w) = Inl e \<and>
          disk (snd (uploadFileToDrive drive file fileType folderId w)) = disk w)
   \<and> (\<forall>r1 d1.
        files_update drive fileId (update_fileMetadata file fileType)
          (media_of file fileType w) ''id, name'' (remote w) = (Inr r1, d1) \<longrightarrow>
          disk (snd (updateFileInDrive drive fileId file fileType w)) (path file) = None \<and>
          (disk w (path file) \<noteq> None \<longrightarrow>
             fst (updateFileInDrive drive fileId file fileType w) = Inr (data r1) \<and>
             disk (snd (updateFileInDrive drive fileId file fileType w)) =
               (disk w)(path file := None)))
   \<and> (\<forall>e d1.
        files_update drive fileId (update_fileMetadata file fileType)
          (media_of file fileType w) ''id, name'' (remote w) = (Inl e, d1) \<longrightarrow>
          fst (updateFileInDrive drive fileId file fileType w) = Inl e \<and>
          disk (snd (updateFileInDrive drive fileId file fileType w)) = disk w)
   \<and> (\<forall>r w'. uploadFileToDrive drive file fileType folderId w = (Inr r, w') \<longrightarrow>
          disk w' (path file) = None)
   \<and> (\<forall>e w'. uploadFileToDrive drive file fileType folderId w = (Inl e, w') \<longrightarrow>
          disk w' = disk w)
   \<and> (\<forall>r w'. updateFileInDrive drive fileId file fileType w = (Inr r, w') \<longrightarrow>
          disk w' (path file) = None)
   \<and> (\<forall>e w'. updateFileInDrive drive fileId file fileType w = (Inl e, w') \<longrightarrow>
          disk w' = disk w)"
proof (intro conjI allI impI; (elim conjE)?)
  fix r1 d1 r2 d2
  assume c: "files_create drive (upload_fileMetadata file fileType folderId)
          (Some (media_of file fileType w)) ''id, name'' (remote w) = (Inr r1, d1)"
    and g: "permissions_create drive (file_id (data r1)) ''reader'' ''anyone'' d1 = (Inr r2, d2)"
  show "disk (snd (uploadFileToDrive drive file fileType folderId w)) (path file) = None"
    by (simp add: upload_pushed(1)[OF c g])
  assume "disk w (path file) \<noteq> None"
  then show "fst (uploadFileToDrive drive file fileType folderId w) = Inr (data r1)"
    by (rule upload_pushed(2)[OF c g])
  show "disk (snd (uploadFileToDrive drive file fileType folderId w)) =
               (disk w)(path file := None)"
    by (rule upload_pushed(1)[OF c g])
next
  fix e d1
  assume c: "files_create drive (upload_fileMetadata file fileType folderId)
          (Some (media_of file fileType w)) ''id, name'' (remote w) = (Inl e, d1)"
  show "fst (uploadFileToDrive drive file fileType folderId w) = Inl e"
    by (rule upload_create_fails(1)[OF c])
  show "disk (snd (uploadFileToDrive drive file fileType folderId w)) = disk w"
    by (rule upload_create_fails(2)[OF c])
next
  fix r1 d1 e d2
  assume c: "files_create drive (upload_fileMetadata file fileType folderId)
          (Some (media_of file fileType w)) ''id, name'' (remote w) = (Inr r1, d1)"
    and g: "permissions_create drive (file_id (data r1)) ''reader'' ''anyone'' d1 = (Inl e, d2)"
  show "fst (uploadFileToDrive drive file fileType folderId w) = Inl e"
    by (rule upload_grant_fails(1)[OF c g])
  show "disk (snd (uploadFileToDrive drive file fileType folderId w)) = disk w"
    by (rule upload_grant_fails(2)[OF c g])
next
  fix r1 d1
  assume u: "files_update drive fileId (update_fileMetadata file fileType)
          (media_of file fileType w) ''id, name'' (remote w) = (Inr r1, d1)"
  show "disk (snd (updateFileInDrive drive fileId file fileType w)) (path file) = None"
    by (simp add: update_pushed(1)[OF u])
  assume "disk w (path file) \<noteq> None"
  then show "fst (updateFileInDrive drive fileId file fileType w) = Inr (data r1)"
    by (rule update_pushed(2)[OF u])
  show "disk (snd (updateFileInDrive drive fileId file fileType w)) =
               (disk w)(path file := None)"
    by (rule update_pushed(1)[OF u])
next
  fix e d1
  assume u: "files_update drive fileId (update_fileMetadata file fileType)
          (media_of file fileType w) ''id, name'' (remote w) = (Inl e, d1)"
  show "fst (updateFileInDrive drive fileId file fileType w) = Inl e"
    by (rule update_fails(1)[OF u])
  show "disk (snd (updateFileInDrive drive fileId file fileType w)) = disk w"
    by (rule update_fails(2)[OF u])
next
  fix r w'
  assume "uploadFileToDrive drive file fileType folderId w = (Inr r, w')"
  then show "disk w' (path file) = None" by (rule upload_returns)
next
  fix e w'
  assume "uploadFileToDrive drive file fileType folderId w = (Inl e, w')"
  then show "disk w' = disk w" by (rule upload_throws)
next
  fix r w'
  assume "updateFileInDrive drive fileId file fileType w = (Inr r, w')"
  then show "disk w' (path file) = None" by (rule update_returns)
next
  fix e w'
  assume "updateFileInDrive drive fileId file fileType w = (Inl e, w')"
  then show "disk w' = disk w" by (rule update_throws)
qed
theorem staged_file_removed_iff_push_succeeds_witness:
  "disk world0 (path staged0) = Some ''0123456789''
   \<and> fst (uploadFileToDrive mem_drive staged0 ''image/png'' None world0) = Inr (data created0)
   \<and> disk (snd (uploadFileToDrive mem_drive staged0 ''image/png'' None world0)) (path staged0) = None
   \<and> fst (uploadFileToDrive mem_drive staged0 ''image/png'' (Some ''nope'') world0) =
         Inl (DriveError ''File not found'')
   \<and> disk (snd (uploadFileToDrive mem_drive staged0 ''image/png'' (Some ''nope'') world0))
         (path staged0) = Some ''0123456789''
   \<and> fst (uploadFileToDrive private_drive staged0 ''image/png'' None world0) =
         Inl (DriveError ''Forbidden'')
   \<and> disk (snd (uploadFileToDrive private_drive staged0 ''image/png'' None world0))
         (path staged0) = Some ''0123456789''
   \<and> fst (updateFileInDrive mem_drive ''i1'' staged0 ''image/png'' world0) = Inr (data updated0)
   \<and> disk (snd (updateFileInDrive mem_drive ''i1'' staged0 ''image/png'' world0)) (path staged0) = None
   \<and> fst (updateFileInDrive mem_drive ''zz'' staged0 ''image/png'' world0) =
         Inl (DriveError ''File not found'')
   \<and> disk (snd (updateFileInDrive mem_drive ''zz'' staged0 ''image/png'' world0))
         (path staged0) = Some ''0123456789''"
proof -
  note T = staged_file_removed_iff_push_succeeds
  note upload_ok = T[THEN conjunct1, rule_format]
  note create_fails = T[THEN conjunct2, THEN conjunct1, rule_format]
  note grant_fails = T[THEN conjunct2, THEN conjunct2, THEN conjunct1, rule_format]
  note update_ok = T[THEN conjunct2, THEN conjunct2, THEN conjunct2, THEN conjunct1, rule_format]
  note update_fails = T[THEN conjunct2, THEN conjunct2, THEN conjunct2, THEN conjunct2,
                        THEN conjunct1, rule_format]
  have d: "disk world0 (path staged0) \<noteq> None"
    by (simp add: sample_disk)
  have pushed:
    "fst (uploadFileToDrive mem_drive staged0 ''image/png'' None world0) = Inr (data created0)
     \<and> disk (snd (uploadFileToDrive mem_drive staged0 ''image/png'' None world0)) (path staged0) = None"
    using upload_ok[OF conjI[OF sample_create sample_grant]] d by simp
  have orphan:
    "fst (uploadFileToDrive mem_drive staged0 ''image/png'' (Some ''nope'') world0) =
       Inl (DriveError ''File not found'')
     \<and> disk (snd (uploadFileToDrive mem_drive staged0 ''image/png'' (Some ''nope'') world0)) =
       disk world0"
    using create_fails[OF sample_create_orphan] by simp
  have refused:
    "fst (uploadFileToDrive private_drive staged0 ''image/png'' None world0) =
       Inl (DriveError ''Forbidden'')
     \<and> disk (snd (uploadFileToDrive private_drive staged0 ''image/png'' None world0)) =
       disk world0"
    using grant_fails[OF conjI[OF sample_create[folded sample_create_private]
                                  sample_grant_private]] by simp
  have updated:
    "fst (updateFileInDrive mem_drive ''i1'' staged0 ''image/png'' world0) = Inr (data updated0)
     \<and> disk (snd (updateFileInDrive mem_drive ''i1'' staged0 ''image/png'' world0)) (path staged0) = None"
    using update_ok[OF sample_update] d by simp
  have missing:
    "fst (updateFileInDrive mem_drive ''zz'' staged0 ''image/png'' world0) =
       Inl (DriveError ''File not found'')
     \<and> disk (snd (updateFileInDrive mem_drive ''zz'' staged0 ''image/png'' world0)) = disk world0"
    using update_fails[OF sample_update_missing] by simp
  show ?thesis
    using pushed orphan refused updated missing sample_disk by simp
qed

subsection \<open>C2: the push completes before the cleanup\<close>

text \<open>The events an upload and an update add to the trace, in order.\<close>

lemma upload_events:
  fixes drive :: "'d drive"
  shows "\<exists>evs. trace (snd (uploadFileToDrive drive file fileType folderId w)) = trace w @ evs \<and>
    ((\<exists>e. evs = [FilesCreate (upload_fileMetadata file fileType folderId)
                    (Some (media_of file fileType w)) ''id, name'' (Inl e),
                  ConsoleError ''Error uploading file to Drive:'' e])
   \<or> (\<exists>r1 e. evs = [FilesCreate (upload_fileMetadata file fileType folderId)
                    (Some (media_of file fileType w)) ''id, name'' (Inr r1),
                  PermissionsCreate (file_id (data r1)) ''reader'' ''anyone'' (Inl e),
                  ConsoleError ''Error uploading file to Drive:'' e])
   \<or> (\<exists>r1 r2. evs = [FilesCreate (upload_fileMetadata file fileType folderId)
                    (Some (media_of file fileType w)) ''id, name'' (Inr r1),
                  PermissionsCreate (file_id (data r1)) ''reader'' ''anyone'' (Inr r2),
                  UnlinkSync (path file) (Inr ())])
   \<or> (\<exists>r1 r2. evs = [FilesCreate (upload_fileMetadata file fileType folderId)
                    (Some (media_of file fileType w)) ''id, name'' (Inr r1),
                  PermissionsCreate (file_id (data r1)) ''reader'' ''anyone'' (Inr r2),
                  UnlinkSync (path file) (Inl (ENOENT (path file))),
                  ConsoleError ''Error uploading file to Drive:'' (ENOENT (path file))]))"
  by (auto simp add: uploadFileToDrive_def call_defs act_defs Let_def
           split: prod.splits sum.splits option.splits)

lemma update_events:
  fixes drive :: "'d drive"
  shows "\<exists>evs. trace (snd (updateFileInDrive drive fileId newFile fileType w)) = trace w @ evs \<and>
    ((\<exists>e. evs = [FilesUpdate fileId (update_fileMetadata newFile fileType)
                    (media_of newFile fileType w) ''id, name'' (Inl e),
                  ConsoleError ''Error updating file in Drive:'' e])
   \<or> (\<exists>r1. evs = [FilesUpdate fileId (update_fileMetadata newFile fileType)
                    (media_of newFile fileType w) ''id, name'' (Inr r1),
                  UnlinkSync (path newFile) (Inr ())])
   \<or> (\<exists>r1. evs = [FilesUpdate fileId (update_fileMetadata newFile fileType)
                    (media_of newFile fileType w) ''id, name'' (Inr r1),
                  UnlinkSync (path newFile) (Inl (ENOENT (path newFile))),
                  ConsoleError ''Error updating file in Drive:'' (ENOENT (path newFile))]))"
  by (auto simp add: updateFileInDrive_def call_defs act_defs Let_def
           split: prod.splits sum.splits option.splits)

text \<open>
  Claim C2. Within one upload or update, the cleanup comes strictly after the completed
  push: whenever the removal of the staged file is among the events of the action, the
  events before it are exactly the calls of the push, each completed with a response
  (for an upload the create call and then the permission grant, for an update the update
  call), and no backend call and no further removal follows it.
\<close>

theorem push_completes_before_cleanup:
  fixes drive :: "'d drive"
  shows
    "(\<exists>evs. trace (snd (uploadFileToDrive drive file fileType folderId w)) = trace w @ evs \<and>
        ((\<exists>ev \<in> set evs. is_cleanup ev) \<longrightarrow>
           (\<exists>r1 r2 u rest.
              evs = FilesCreate (upload_fileMetadata file fileType folderId)
                      (Some (media_of file fileType w)) ''id, name'' (Inr r1)
                  # PermissionsCreate (file_id (data r1)) ''reader'' ''anyone'' (Inr r2)
                  # UnlinkSync (path file) u # rest \<and>
              (\<forall>ev \<in> set rest. \<not> is_remote_call ev \<and> \<not> is_cleanup ev))))
   \<and> (\<exists>evs. trace (snd (updateFileInDrive drive fileId file fileType w)) = trace w @ evs \<and>
        ((\<exists>ev \<in> set evs. is_cleanup ev) \<longrightarrow>
           (\<exists>r1 u rest.
              evs = FilesUpdate fileId (update_fileMetadata file fileType)
                      (media_of file fileType w) ''id, name'' (Inr r1)
                  # UnlinkSync (path file) u # rest \<and>
              (\<forall>ev \<in> set rest. \<not> is_remote_call ev \<and> \<not> is_cleanup ev))))"
proof
  obtain evs where t: "trace (snd (uploadFileToDrive drive file fileType folderId w)) = trace w @ evs"
    and shape: "(\<exists>e. evs = [FilesCreate (upload_fileMetadata file fileType folderId)
                    (Some (media_of file fileType w)) ''id, name'' (Inl e),
                  ConsoleError ''Error uploading file to Drive:'' e])
   \<or> (\<exists>r1 e. evs = [FilesCreate (upload_fileMetadata file fileType folderId)
                    (Some (media_of file fileType w)) ''id, name'' (Inr r1),
                  PermissionsCreate (file_id (data r1)) ''reader'' ''anyone'' (Inl e),
                  ConsoleError ''Error uploading file to Drive:'' e])
   \<or> (\<exists>r1 r2. evs = [FilesCreate (upload_fileMetadata file fileType folderId)
                    (Some (media_of file fileType w)) ''id, name'' (Inr r1),
                  PermissionsCreate (file_id (data r1)) ''reader'' ''anyone'' (Inr r2),
                  UnlinkSync (path file) (Inr ())])
   \<or> (\<exists>r1 r2. evs = [FilesCreate (upload_fileMetadata file fileType folderId)
                    (Some (media_of file fileType w)) ''id, name'' (Inr r1),
                  PermissionsCreate (file_id (data r1)) ''reader'' ''anyone'' (Inr r2),
                  UnlinkSync (path file) (Inl (ENOENT (path file))),
                  ConsoleError ''Error uploading file to Drive:'' (ENOENT (path file))])"
    using upload_events[of drive "file" fileType folderId w] by blast
  from shape have "(\<exists>ev \<in> set evs. is_cleanup ev) \<longrightarrow>
           (\<exists>r1 r2 u rest.
              evs = FilesCreate (upload_fileMetadata file fileType folderId)
                      (Some (media_of file fileType w)) ''id, name'' (Inr r1)
                  # PermissionsCreate (file_id (data r1)) ''reader'' ''anyone'' (Inr r2)
                  # UnlinkSync (path file) u # rest \<and>
              (\<forall>ev \<in> set rest. \<not> is_remote_call ev \<and> \<not> is_cleanup ev))"
    by (elim disjE exE) simp_all
  with t show "\<exists>evs. trace (snd (uploadFileToDrive drive file fileType folderId w)) = trace w @ evs \<and>
        ((\<exists>ev \<in> set evs. is_cleanup ev) \<longrightarrow>
           (\<exists>r1 r2 u rest.
              evs = FilesCreate (upload_fileMetadata file fileType folderId)
                      (Some (media_of file fileType w)) ''id, name'' (Inr r1)
                  # PermissionsCreate (file_id (data r1)) ''reader'' ''anyone'' (Inr r2)
                  # UnlinkSync (path file) u # rest \<and>
              (\<forall>ev \<in> set rest. \<not> is_remote_call ev \<and> \<not> is_cleanup ev)))"
    by blast
next
  obtain evs where t: "trace (snd (updateFileInDrive drive fileId file fileType w)) = trace w @ evs"
    and shape: "(\<exists>e. evs = [FilesUpdate fileId (update_fileMetadata file fileType)
                    (media_of file fileType w) ''id, name'' (Inl e),
                  ConsoleError ''Error updating file in Drive:'' e])
   \<or> (\<exists>r1. evs = [FilesUpdate fileId (update_fileMetadata file fileType)
                    (media_of file fileType w) ''id, name'' (Inr r1),
                  UnlinkSync (path file) (Inr ())])
   \<or> (\<exists>r1. evs = [FilesUpdate fileId (update_fileMetadata file fileType)
                    (media_of file fileType w) ''id, name'' (Inr r1),
                  UnlinkSync (path file) (Inl (ENOENT (path file))),
                  ConsoleError ''Error updating file in Drive:'' (ENOENT (path file))])"
    using update_events[of drive fileId "file" fileType w] by blast
  from shape have "(\<exists>ev \<in> set evs. is_cleanup ev) \<longrightarrow>
           (\<exists>r1 u rest.
              evs = FilesUpdate fileId (update_fileMetadata file fileType)
                      (media_of file fileType w) ''id, name'' (Inr r1)
                  # UnlinkSync (path file) u # rest \<and>
              (\<forall>ev \<in> set rest. \<not> is_remote_call ev \<and> \<not> is_cleanup ev))"
    by (elim disjE exE) simp_all
  with t show "\<exists>evs. trace (snd (updateFileInDrive drive fileId file fileType w)) = trace w @ evs \<and>
        ((\<exists>ev \<in> set evs. is_cleanup ev) \<longrightarrow>
           (\<exists>r1 u rest.
              evs = FilesUpdate fileId (update_fileMetadata file fileType)
                      (media_of file fileType w) ''id, name'' (Inr r1)
                  # UnlinkSync (path file) u # rest \<and>
              (\<forall>ev \<in> set rest. \<not> is_remote_call ev \<and> \<not> is_cleanup ev)))"
    by blast
qed
theorem push_completes_before_cleanup_witness:
  "(\<exists>ev \<in> set (trace (snd (uploadFileToDrive mem_drive staged0 ''image/png'' None world0))).
      is_cleanup ev)
   \<and> (\<exists>r1 r2 u rest.
        trace (snd (uploadFileToDrive mem_drive staged0 ''image/png'' None world0)) =
          FilesCreate (upload_fileMetadata staged0 ''image/png'' None)
            (Some (media_of staged0 ''image/png'' world0)) ''id, name'' (Inr r1)
          # PermissionsCreate (file_id (data r1)) ''reader'' ''anyone'' (Inr r2)
          # UnlinkSync (path staged0) u # rest \<and>
        (\<forall>ev \<in> set rest. \<not> is_remote_call ev \<and> \<not> is_cleanup ev))
   \<and> (\<exists>ev \<in> set (trace (snd (updateFileInDrive mem_drive ''i1'' staged0 ''image/png'' world0))).
      is_cleanup ev)
   \<and> (\<exists>r1 u rest.
        trace (snd (updateFileInDrive mem_drive ''i1'' staged0 ''image/png'' world0)) =
          FilesUpdate ''i1'' (update_fileMetadata staged0 ''image/png'')
            (media_of staged0 ''image/png'' world0) ''id, name'' (Inr r1)
          # UnlinkSync (path staged0) u # rest \<and>
        (\<forall>ev \<in> set rest. \<not> is_remote_call ev \<and> \<not> is_cleanup ev))"
proof -
  let ?U = "uploadFileToDrive mem_drive staged0 ''image/png'' None world0"
  let ?V = "updateFileInDrive mem_drive ''i1'' staged0 ''image/png'' world0"
  have d: "disk world0 (path staged0) \<noteq> None"
    by (simp add: sample_disk)
  have e: "trace world0 = []"
    by (simp add: world0_def)
  have cu: "\<exists>ev \<in> set (trace (snd ?U)). is_cleanup ev"
    by (simp add: upload_pushed(3)[OF sample_create sample_grant d])
  have cv: "\<exists>ev \<in> set (trace (snd ?V)). is_cleanup ev"
    by (simp add: update_pushed(3)[OF sample_update d])
  note T = push_completes_before_cleanup[of mem_drive staged0 "''image/png''" None world0 "''i1''"]
  from T[THEN conjunct1] cu e
  have su: "\<exists>r1 r2 u rest.
        trace (snd ?U) =
          FilesCreate (upload_fileMetadata staged0 ''image/png'' None)
            (Some (media_of staged0 ''image/png'' world0)) ''id, name'' (Inr r1)
          # PermissionsCreate (file_id (data r1)) ''reader'' ''anyone'' (Inr r2)
          # UnlinkSync (path staged0) u # rest \<and>
        (\<forall>ev \<in> set rest. \<not> is_remote_call ev \<and> \<not> is_cleanup ev)"
    by (elim exE conjE) simp
  from T[THEN conjunct2] cv e
  have sv: "\<exists>r1 u rest.
        trace (snd ?V) =
          FilesUpdate ''i1'' (update_fileMetadata staged0 ''image/png'')
            (media_of staged0 ''image/png'' world0) ''id, name'' (Inr r1)
          # UnlinkSync (path staged0) u # rest \<and>
        (\<forall>ev \<in> set rest. \<not> is_remote_call ev \<and> \<not> is_cleanup ev)"
    by (elim exE conjE) simp
  from cu su cv sv show ?thesis by blast
qed

subsection \<open>C8: create, then grant, then return what the create call answered\<close>

lemma mem_drive_honours_field_mask: "honours_field_mask mem_drive"
  by (auto simp add: honours_field_mask_def only_id_name_def mem_drive_def mem_create_def
        no_file_def Let_def split: if_splits)

text \<open>
  Claim C8. A successful upload is two backend calls in this order: the create call with
  the metadata and the media of the staged file and the field mask \<^verbatim>\<open>id, name\<close>, and
  then, on the backend state the create call left, the permission grant with role
  \<^verbatim>\<open>reader\<close> and type \<^verbatim>\<open>anyone\<close> on the identifier the create call answered. The
  result is the data of the create response, unchanged: on a backend that honours the
  field mask it carries the identifier and the name and nothing else.
\<close>

theorem upload_creates_then_grants:
  fixes drive :: "'d drive"
  assumes "uploadFileToDrive drive file fileType folderId w = (Inr result, w')"
  shows "\<exists>r1 d1 r2.
      files_create drive (upload_fileMetadata file fileType folderId)
        (Some (media_of file fileType w)) ''id, name'' (remote w) = (Inr r1, d1)
    \<and> permissions_create drive (file_id (data r1)) ''reader'' ''anyone'' d1 = (Inr r2, remote w')
    \<and> trace w' = trace w @
         [FilesCreate (upload_fileMetadata file fileType folderId)
            (Some (media_of file fileType w)) ''id, name'' (Inr r1),
          PermissionsCreate (file_id (data r1)) ''reader'' ''anyone'' (Inr r2),
          UnlinkSync (path file) (Inr ())]
    \<and> result = data r1
    \<and> (honours_field_mask drive \<longrightarrow> only_id_name result)"
  using assms
  by (fastforce simp add: uploadFileToDrive_def call_defs act_defs Let_def honours_field_mask_def
        split: prod.splits sum.splits option.splits)

theorem upload_creates_then_grants_witness:
  "uploadFileToDrive mem_drive staged0 ''image/png'' None world0 =
     (Inr (data created0), snd (uploadFileToDrive mem_drive staged0 ''image/png'' None world0))
   \<and> honours_field_mask mem_drive
   \<and> only_id_name (data created0)
   \<and> file_id (data created0) = Some ''f0''
   \<and> (\<exists>r1 r2. trace (snd (uploadFileToDrive mem_drive staged0 ''image/png'' None world0)) =
         [FilesCreate (upload_fileMetadata staged0 ''image/png'' None)
            (Some (media_of staged0 ''image/png'' world0)) ''id, name'' (Inr r1),
          PermissionsCreate (file_id (data r1)) ''reader'' ''anyone'' (Inr r2),
          UnlinkSync (path staged0) (Inr ())] \<and> data created0 = data r1)"
proof -
  let ?U = "uploadFileToDrive mem_drive staged0 ''image/png'' None world0"
  have d: "disk world0 (path staged0) \<noteq> None"
    by (simp add: sample_disk)
  have h: "?U = (Inr (data created0), snd ?U)"
    using upload_pushed(2)[OF sample_create sample_grant d] by (simp add: prod_eq_iff)
  from upload_creates_then_grants[OF h] mem_drive_honours_field_mask
  have "only_id_name (data created0)"
    and "\<exists>r1 r2. trace (snd ?U) =
         [FilesCreate (upload_fileMetadata staged0 ''image/png'' None)
            (Some (media_of staged0 ''image/png'' world0)) ''id, name'' (Inr r1),
          PermissionsCreate (file_id (data r1)) ''reader'' ''anyone'' (Inr r2),
          UnlinkSync (path staged0) (Inr ())] \<and> data created0 = data r1"
    by (auto simp add: world0_def)
  moreover have "file_id (data created0) = Some ''f0''"
    by (simp add: created0_def no_file_def)
  ultimately show ?thesis
    using h mem_drive_honours_field_mask by blast
qed

subsection \<open>C4: the public download link of the metadata\<close>

text \<open>
  Claim C4. The record the metadata operation returns is the data of the backend's
  response with \<open>publicDownloadLink\<close> set by the program itself, whatever the response
  held there: the fixed address \<^verbatim>\<open>https://drive.google.com/uc\<close>, \<^verbatim>\<open>?id=\<close> and the
  identifier of the record. For the record of the file that was asked for, that is the
  identifier of the request.
\<close>

theorem metadata_public_link:
  fixes drive :: "'d drive"
  assumes "getFileMetadataFromDrive drive fileId w = (Inr metadata, w')"
  shows "(\<forall>i. file_id metadata = Some i \<longrightarrow>
            publicDownloadLink metadata = Some (''https://drive.google.com/uc?id='' @ i))
    \<and> (file_id metadata = Some fileId \<longrightarrow>
            publicDownloadLink metadata = Some (''https://drive.google.com/uc?id='' @ fileId))
    \<and> (\<exists>r d. files_get drive fileId ''id, name, mimeType, webViewLink, webContentLink, parents''
                 (remote w) = (Inr r, d)
             \<and> metadata = (data r)\<lparr>publicDownloadLink :=
                   Some (''https://drive.google.com/uc?id='' @ template (file_id (data r)))\<rparr>)"
  using assms
  by (auto simp add: getFileMetadataFromDrive_def call_defs act_defs Let_def
        split: prod.splits sum.splits)

theorem metadata_public_link_witness:
  "getFileMetadataFromDrive mem_drive ''i1'' world0 =
     (Inr (an_image\<lparr>publicDownloadLink := Some ''https://drive.google.com/uc?id=i1''\<rparr>),
      snd (getFileMetadataFromDrive mem_drive ''i1'' world0))
   \<and> file_id (an_image\<lparr>publicDownloadLink := Some ''https://drive.google.com/uc?id=i1''\<rparr>) =
       Some ''i1''
   \<and> publicDownloadLink (an_image\<lparr>publicDownloadLink := Some ''https://drive.google.com/uc?id=i1''\<rparr>) =
       Some (''https://drive.google.com/uc?id='' @ ''i1'')"
proof -
  have h: "getFileMetadataFromDrive mem_drive ''i1'' world0 =
     (Inr (an_image\<lparr>publicDownloadLink := Some ''https://drive.google.com/uc?id=i1''\<rparr>),
      snd (getFileMetadataFromDrive mem_drive ''i1'' world0))"
    by (simp add: getFileMetadataFromDrive_def call_defs act_defs Let_def mem_defs
          world0_def mem0_def a_folder_def an_image_def no_file_def prod_eq_iff)
  have i: "file_id (an_image\<lparr>publicDownloadLink := Some ''https://drive.google.com/uc?id=i1''\<rparr>) =
       Some ''i1''"
    by (simp add: an_image_def no_file_def)
  from metadata_public_link[OF h, THEN conjunct2, THEN conjunct1] h i
  show ?thesis by blast
qed

subsection \<open>C5: the answer of the file delete route\<close>

text \<open>
  Claim C5. \<^verbatim>\<open>DELETE /drive/file/:fileId\<close> answers 200 with the success message when
  the backend's delete call resolves with status 204, and only then; when the call
  resolves with another status and when it is rejected, the route answers 500.
\<close>

theorem delete_route_200_iff_204:
  fixes drive :: "'d drive"
  shows
    "(\<forall>r d. files_delete drive fileId (remote w) = (Inr r, d) \<and> status r = 204 \<longrightarrow>
        fst (delete_drive_file drive fileId w) =
          reply 200 (Send ''File deleted from Drive successfully.''))
   \<and> (\<forall>r d. files_delete drive fileId (remote w) = (Inr r, d) \<and> status r \<noteq> 204 \<longrightarrow>
        fst (delete_drive_file drive fileId w) =
          reply 500 (Send ''Failed to delete file from Drive.''))
   \<and> (\<forall>e d. files_delete drive fileId (remote w) = (Inl e, d) \<longrightarrow>
        fst (delete_drive_file drive fileId w) =
          reply 500 (Send ''Failed to delete file from Drive.''))
   \<and> (res_status (fst (delete_drive_file drive fileId w)) = 200 \<longleftrightarrow>
        (\<exists>r d. files_delete drive fileId (remote w) = (Inr r, d) \<and> status r = 204))
   \<and> (res_status (fst (delete_drive_file drive fileId w)) \<noteq> 200 \<longrightarrow>
        res_status (fst (delete_drive_file drive fileId w)) = 500)"
  by (auto simp add: delete_drive_file_def deleteFileFromDrive_def call_defs act_defs reply_def
        split: prod.splits sum.splits)

theorem delete_route_200_iff_204_witness:
  "files_delete mem_drive ''i1'' (remote world0) =
     (Inr \<lparr>status = 204, data = ()\<rparr>, \<lparr>next_id = 0, stored = [a_folder]\<rparr>)
   \<and> fst (delete_drive_file mem_drive ''i1'' world0) =
       reply 200 (Send ''File deleted from Drive successfully.'')
   \<and> files_delete lenient_drive ''i1'' (remote world0) =
       (Inr \<lparr>status = 200, data = ()\<rparr>, remote world0)
   \<and> fst (delete_drive_file lenient_drive ''i1'' world0) =
       reply 500 (Send ''Failed to delete file from Drive.'')
   \<and> files_delete mem_drive ''zz'' (remote world0) =
       (Inl (DriveError ''File not found''), remote world0)
   \<and> fst (delete_drive_file mem_drive ''zz'' world0) =
       reply 500 (Send ''Failed to delete file from Drive.'')"
proof -
  note T = delete_route_200_iff_204
  have a: "files_delete mem_drive ''i1'' (remote world0) =
     (Inr \<lparr>status = 204, data = ()\<rparr>, \<lparr>next_id = 0, stored = [a_folder]\<rparr>)"
    by (simp add: mem_defs world0_def mem0_def a_folder_def an_image_def no_file_def)
  have b: "files_delete lenient_drive ''i1'' (remote world0) =
       (Inr \<lparr>status = 200, data = ()\<rparr>, remote world0)"
    by (simp add: lenient_drive_def)
  have c: "files_delete mem_drive ''zz'' (remote world0) =
       (Inl (DriveError ''File not found''), remote world0)"
    by (simp add: mem_defs world0_def mem0_def a_folder_def an_image_def no_file_def)
  have "fst (delete_drive_file mem_drive ''i1'' world0) =
       reply 200 (Send ''File deleted from Drive successfully.'')"
    using T[THEN conjunct1, rule_format, OF conjI[OF a]] by simp
  moreover have "fst (delete_drive_file lenient_drive ''i1'' world0) =
       reply 500 (Send ''Failed to delete file from Drive.'')"
    using T[THEN conjunct2, THEN conjunct1, rule_format, OF conjI[OF b]] by simp
  moreover have "fst (delete_drive_file mem_drive ''zz'' world0) =
       reply 500 (Send ''Failed to delete file from Drive.'')"
    using T[THEN conjunct2, THEN conjunct2, THEN conjunct1, rule_format, OF c] by simp
  ultimately show ?thesis
    using a b c by blast
qed

subsection \<open>C7: a missing file part and an empty folder name\<close>

text \<open>
  Claim C7. \<^verbatim>\<open>PUT /drive/file/:fileId\<close> without a file part and
  \<^verbatim>\<open>POST /drive/folder\<close> with an empty (or absent) \<^verbatim>\<open>folderName\<close> answer 400 and
  leave the world as it was: no backend call is made and the trace gains no event.
\<close>

theorem missing_input_is_400_without_remote_call:
  fixes drive :: "'d drive"
  shows
    "put_drive_file drive dirname fileId None w =
       (reply 400 (Send ''No file provided for update.''), w)
   \<and> post_drive_folder drive (Some []) parentId w =
       (reply 400 (Send ''Folder name is required.''), w)
   \<and> post_drive_folder drive None parentId w =
       (reply 400 (Send ''Folder name is required.''), w)
   \<and> res_status (fst (put_drive_file drive dirname fileId None w)) = 400
   \<and> res_status (fst (post_drive_folder drive (Some []) parentId w)) = 400
   \<and> trace (snd (put_drive_file drive dirname fileId None w)) = trace w
   \<and> trace (snd (post_drive_folder drive (Some []) parentId w)) = trace w
   \<and> remote (snd (put_drive_file drive dirname fileId None w)) = remote w
   \<and> remote (snd (post_drive_folder drive (Some []) parentId w)) = remote w"
  by (simp add: put_drive_file_def post_drive_folder_def upload_single_def single_def reply_def)

theorem missing_input_is_400_without_remote_call_witness:
  "put_drive_file mem_drive ''/srv'' ''i1'' None world0 =
     (reply 400 (Send ''No file provided for update.''), world0)
   \<and> post_drive_folder mem_drive (Some []) None world0 =
     (reply 400 (Send ''Folder name is required.''), world0)"
  using missing_input_is_400_without_remote_call[of mem_drive "''/srv''" "''i1''" world0 None]
  by simp

subsection \<open>C6: listing without a filter excludes folders\<close>

lemma mem_drive_honours_queries: "honours_queries mem_drive"
  by (auto simp add: honours_queries_def mem_drive_def mem_list_def split: option.splits)

lemma folder_exclusion_query:
  "parse_query (all_files_query None) = Some (MimeTypeIsNot ''application/vnd.google-apps.folder'')"
  by (simp add: all_files_query_def parse_query_def quoted_literal_def folder_mime_def
        quote_def backslash_def)

text \<open>
  Claim C6. Without a content type, the list operation sends exactly one backend call,
  the list query \<^verbatim>\<open>mimeType != 'application/vnd.google-apps.folder'\<close>, which in the
  query language excludes the files of the folder type, and returns the list of the
  response as it is. On a backend that honours its queries, no entry of the returned
  list has the folder type, and so none of the list that \<^verbatim>\<open>GET /drive/files\<close>
  answers.
\<close>

theorem list_without_filter_has_no_folder:
  fixes drive :: "'d drive"
  shows
    "(\<exists>r rest.
        trace (snd (getAllFilesFromDrive drive None w)) = trace w @
          FilesList (''mimeType != '' @ [quote] @ ''application/vnd.google-apps.folder'' @ [quote])
            ''files(id, name, mimeType, webViewLink, webContentLink)'' r # rest
        \<and> (\<forall>ev \<in> set rest. \<not> is_remote_call ev)
        \<and> (\<forall>fs. fst (getAllFilesFromDrive drive None w) = Inr fs \<longrightarrow>
              (\<exists>resp. r = Inr resp \<and> fs = data resp)))
   \<and> parse_query (''mimeType != '' @ [quote] @ ''application/vnd.google-apps.folder'' @ [quote]) =
       Some (MimeTypeIsNot ''application/vnd.google-apps.folder'')
   \<and> (honours_queries drive \<longrightarrow>
        (\<forall>fs. fst (getAllFilesFromDrive drive None w) = Inr fs \<longrightarrow>
           (\<forall>f \<in> set fs. mimeType f \<noteq> Some ''application/vnd.google-apps.folder'')))
   \<and> (honours_queries drive \<longrightarrow>
        (\<forall>fs. fst (get_drive_files drive w) = reply 200 (JsonFiles fs) \<longrightarrow>
           (\<forall>f \<in> set fs. mimeType f \<noteq> Some ''application/vnd.google-apps.folder'')))"
proof (intro conjI impI allI)
  show "\<exists>r rest.
        trace (snd (getAllFilesFromDrive drive None w)) = trace w @
          FilesList (''mimeType != '' @ [quote] @ ''application/vnd.google-apps.folder'' @ [quote])
            ''files(id, name, mimeType, webViewLink, webContentLink)'' r # rest
        \<and> (\<forall>ev \<in> set rest. \<not> is_remote_call ev)
        \<and> (\<forall>fs. fst (getAllFilesFromDrive drive None w) = Inr fs \<longrightarrow>
              (\<exists>resp. r = Inr resp \<and> fs = data resp))"
    by (auto simp add: getAllFilesFromDrive_def all_files_query_def folder_mime_def
          call_defs act_defs split: prod.splits sum.splits)
next
  show "parse_query (''mimeType != '' @ [quote] @ ''application/vnd.google-apps.folder'' @ [quote]) =
       Some (MimeTypeIsNot ''application/vnd.google-apps.folder'')"
    using folder_exclusion_query by (simp add: all_files_query_def folder_mime_def)
next
  fix fs
  assume h: "honours_queries drive"
    and r: "fst (getAllFilesFromDrive drive None w) = Inr fs"
  from r obtain resp d where
    l: "files_list drive (all_files_query None)
          ''files(id, name, mimeType, webViewLink, webContentLink)'' (remote w) = (Inr resp, d)"
    and fs: "fs = data resp"
    by (auto simp add: getAllFilesFromDrive_def call_defs act_defs split: prod.splits sum.splits)
  from h l folder_exclusion_query
  have "\<forall>f \<in> set (data resp). matches (MimeTypeIsNot ''application/vnd.google-apps.folder'') f"
    unfolding honours_queries_def by blast
  with fs
  show "\<forall>f \<in> set fs. mimeType f \<noteq> Some ''application/vnd.google-apps.folder''"
    by auto
next
  fix fs
  assume h: "honours_queries drive"
    and r: "fst (get_drive_files drive w) = reply 200 (JsonFiles fs)"
  from r have "fst (getAllFilesFromDrive drive None w) = Inr fs"
    by (cases "getAllFilesFromDrive drive None w"; cases "fst (getAllFilesFromDrive drive None w)")
       (simp_all add: get_drive_files_def reply_def)
  then obtain resp d where
    l: "files_list drive (all_files_query None)
          ''files(id, name, mimeType, webViewLink, webContentLink)'' (remote w) = (Inr resp, d)"
    and fs: "fs = data resp"
    by (auto simp add: getAllFilesFromDrive_def call_defs act_defs split: prod.splits sum.splits)
  from h l folder_exclusion_query
  have "\<forall>f \<in> set (data resp). matches (MimeTypeIsNot ''application/vnd.google-apps.folder'') f"
    unfolding honours_queries_def by blast
  with fs
  show "\<forall>f \<in> set fs. mimeType f \<noteq> Some ''application/vnd.google-apps.folder''"
    by auto
qed

theorem list_without_filter_has_no_folder_witness:
  "honours_queries mem_drive
   \<and> a_folder \<in> set (stored (remote world0))
   \<and> mimeType a_folder = Some ''application/vnd.google-apps.folder''
   \<and> fst (getAllFilesFromDrive mem_drive None world0) = Inr [an_image]
   \<and> mimeType an_image \<noteq> Some ''application/vnd.google-apps.folder''"
proof -
  have r: "fst (getAllFilesFromDrive mem_drive None world0) = Inr [an_image]"
    by (simp add: getAllFilesFromDrive_def call_defs act_defs mem_drive_def mem_list_def
          folder_exclusion_query world0_def mem0_def a_folder_def an_image_def no_file_def
          folder_mime_def)
  from list_without_filter_has_no_folder[of mem_drive world0, THEN conjunct2, THEN conjunct2,
         THEN conjunct1, rule_format, OF mem_drive_honours_queries r]
  have "mimeType an_image \<noteq> Some ''application/vnd.google-apps.folder''"
    by simp
  moreover have "a_folder \<in> set (stored (remote world0))"
    by (simp add: world0_def mem0_def)
  moreover have "mimeType a_folder = Some ''application/vnd.google-apps.folder''"
    by (simp add: a_folder_def folder_mime_def no_file_def)
  ultimately show ?thesis
    using mem_drive_honours_queries r by blast
qed

subsection \<open>C10: the search query is built without escaping\<close>

text \<open>A term without a quote and without a backslash is read back as it was written.\<close>

lemma read_literal_plain:
  "quote \<notin> set s \<Longrightarrow> backslash \<notin> set s \<Longrightarrow> read_literal (s @ quote # r) = Some (s, r)"
  by (induction s) auto

lemma search_query_plain:
  assumes "quote \<notin> set fileName" and "backslash \<notin> set fileName"
  shows "parse_query (search_query fileName) = Some (NameContains fileName)"
  using read_literal_plain[OF assms, of "[]"]
  by (simp add: search_query_def parse_query_def quoted_literal_def)

text \<open>
  Claim C10. The search operation sends the list query that is the text
  \<^verbatim>\<open>name contains '\<close>, the term as it came, and a closing quote, with no character of
  the term escaped. So there is a term with a single quote whose query is not the
  substring filter for that term: for \<^verbatim>\<open>a'b\<close> the quote of the term ends the string
  of the query and the rest is left over.
\<close>

theorem search_query_is_not_escaped:
  "(\<forall>(drive :: 'd drive) fileName w. \<exists>r rest.
      trace (snd (searchFileInDrive drive fileName w)) = trace w @
        FilesList (''name contains '' @ [quote] @ fileName @ [quote])
          ''files(id, name, mimeType)'' r # rest
      \<and> list_all (\<lambda>ev. \<not> is_remote_call ev) rest)
   \<and> (\<exists>fileName. quote \<in> set fileName
        \<and> search_query fileName = ''name contains '' @ [quote] @ fileName @ [quote]
        \<and> parse_query (search_query fileName) \<noteq> Some (NameContains fileName))"
proof
  show "\<forall>(drive :: 'd drive) fileName w. \<exists>r rest.
      trace (snd (searchFileInDrive drive fileName w)) = trace w @
        FilesList (''name contains '' @ [quote] @ fileName @ [quote])
          ''files(id, name, mimeType)'' r # rest
      \<and> list_all (\<lambda>ev. \<not> is_remote_call ev) rest"
    by (auto simp add: searchFileInDrive_def search_query_def call_defs act_defs
          split: prod.splits sum.splits)
next
  have "quote \<in> set (''a'' @ [quote] @ ''b'')"
    by simp
  moreover have "search_query (''a'' @ [quote] @ ''b'') =
      ''name contains '' @ [quote] @ (''a'' @ [quote] @ ''b'') @ [quote]"
    by (simp add: search_query_def)
  moreover have "parse_query (search_query (''a'' @ [quote] @ ''b'')) = None"
    by (simp add: search_query_def parse_query_def quoted_literal_def quote_def backslash_def)
  ultimately show "\<exists>fileName. quote \<in> set fileName
        \<and> search_query fileName = ''name contains '' @ [quote] @ fileName @ [quote]
        \<and> parse_query (search_query fileName) \<noteq> Some (NameContains fileName)"
    by (intro exI[of _ "''a'' @ [quote] @ ''b''"]) simp
qed
theorem search_query_is_not_escaped_witness:
  "\<exists>r rest.
      trace (snd (searchFileInDrive mem_drive (''a'' @ [quote] @ ''b'') world0)) =
        FilesList (''name contains '' @ [quote] @ (''a'' @ [quote] @ ''b'') @ [quote])
          ''files(id, name, mimeType)'' r # rest
      \<and> list_all (\<lambda>ev. \<not> is_remote_call ev) rest"
  using search_query_is_not_escaped[where 'd = mem, THEN conjunct1, rule_format,
          of mem_drive "''a'' @ [quote] @ ''b''" world0]
  by (simp add: world0_def)

subsection \<open>C9: deleting through the folder operation\<close>

text \<open>The events a delete adds to the trace: the call, and the console line when it is rejected.\<close>

lemma delete_file_events:
  fixes drive :: "'d drive"
  shows "trace (snd (deleteFileFromDrive drive x w)) = trace w @
           FilesDelete x (fst (files_delete drive x (remote w)))
           # (case fst (files_delete drive x (remote w)) of
                Inl e \<Rightarrow> [ConsoleError ''Error deleting file from Drive:'' e]
              | Inr r \<Rightarrow> [])"
  by (auto simp add: deleteFileFromDrive_def call_defs act_defs split: prod.splits sum.splits)

lemma delete_folder_events:
  fixes drive :: "'d drive"
  shows "trace (snd (deleteFolderFromDrive drive x w)) = trace w @
           FilesDelete x (fst (files_delete drive x (remote w)))
           # (case fst (files_delete drive x (remote w)) of
                Inl e \<Rightarrow> [ConsoleError ''Error deleting folder from Drive:'' e]
              | Inr r \<Rightarrow> [])"
  by (auto simp add: deleteFolderFromDrive_def call_defs act_defs split: prod.splits sum.splits)

lemma delete_results:
  fixes drive :: "'d drive"
  shows "fst (deleteFileFromDrive drive x w) =
           map_sum id status (fst (files_delete drive x (remote w)))"
    and "fst (deleteFolderFromDrive drive x w) =
           map_sum id status (fst (files_delete drive x (remote w)))"
  by (auto simp add: deleteFileFromDrive_def deleteFolderFromDrive_def call_defs act_defs
        split: prod.splits sum.splits)

lemma delete_quiet:
  fixes drive :: "'d drive"
  shows "quiet (snd (deleteFolderFromDrive drive x w)) = quiet (snd (deleteFileFromDrive drive x w))"
  by (auto simp add: deleteFileFromDrive_def deleteFolderFromDrive_def call_defs act_defs
        quiet_def split: prod.splits sum.splits)

lemma delete_resolved_equal:
  fixes drive :: "'d drive"
  assumes "files_delete drive x (remote w) = (Inr r, d)"
  shows "deleteFolderFromDrive drive x w = deleteFileFromDrive drive x w"
  using assms
  by (simp add: deleteFileFromDrive_def deleteFolderFromDrive_def call_defs act_defs)

lemma delete_route_worlds:
  fixes drive :: "'d drive"
  shows "snd (delete_drive_file drive x w) = snd (deleteFileFromDrive drive x w)"
    and "snd (delete_drive_folder drive x w) = snd (deleteFolderFromDrive drive x w)"
  by (auto simp add: delete_drive_file_def delete_drive_folder_def split: prod.splits sum.splits)

lemma delete_route_answers:
  fixes drive :: "'d drive"
  shows "fst (delete_drive_file drive x w) =
           (case fst (files_delete drive x (remote w)) of
              Inr r \<Rightarrow> if status r = 204
                       then reply 200 (Send ''File deleted from Drive successfully.'')
                       else reply 500 (Send ''Failed to delete file from Drive.'')
            | Inl e \<Rightarrow> reply 500 (Send ''Failed to delete file from Drive.''))"
    and "fst (delete_drive_folder drive x w) =
           (case fst (files_delete drive x (remote w)) of
              Inr r \<Rightarrow> if status r = 204
                       then reply 200 (Send ''Folder deleted successfully.'')
                       else reply 500 (Send ''Failed to delete folder from Drive.'')
            | Inl e \<Rightarrow> reply 500 (Send ''Failed to delete folder from Drive.''))"
  by (auto simp add: delete_drive_file_def delete_drive_folder_def deleteFileFromDrive_def
        deleteFolderFromDrive_def call_defs act_defs split: prod.splits sum.splits)

text \<open>
  Claim C9. For every backend, identifier and world, the folder delete operation issues
  exactly the backend call of the file delete operation, the delete of that identifier on
  the same backend state, and nothing else reaches the backend. Both return the status
  of the response, or throw the error of the call. They leave the same world (disk,
  clock, backend state and trace of events) but for the label of the one console line
  written when the call is rejected; when the call resolves, the two operations are
  equal outright. The events of each are given in full. Through the routes: the folder
  route and the file route answer with the same status code, 200 exactly when the call
  resolved with status 204 and 500 otherwise, each with a plain message of its own, and
  leave the worlds their operations left.
\<close>

theorem delete_folder_is_delete_file:
  fixes drive :: "'d drive"
  shows
    "fst (deleteFolderFromDrive drive x w) = fst (deleteFileFromDrive drive x w)
   \<and> fst (deleteFileFromDrive drive x w) =
       map_sum id status (fst (files_delete drive x (remote w)))
   \<and> quiet (snd (deleteFolderFromDrive drive x w)) = quiet (snd (deleteFileFromDrive drive x w))
   \<and> remote (snd (deleteFolderFromDrive drive x w)) = snd (files_delete drive x (remote w))
   \<and> remote (snd (deleteFileFromDrive drive x w)) = snd (files_delete drive x (remote w))
   \<and> disk (snd (deleteFolderFromDrive drive x w)) = disk w
   \<and> disk (snd (deleteFileFromDrive drive x w)) = disk w
   \<and> now (snd (deleteFolderFromDrive drive x w)) = now w
   \<and> now (snd (deleteFileFromDrive drive x w)) = now w
   \<and> trace (snd (deleteFolderFromDrive drive x w)) = trace w @
         FilesDelete x (fst (files_delete drive x (remote w)))
         # (case fst (files_delete drive x (remote w)) of
              Inl e \<Rightarrow> [ConsoleError ''Error deleting folder from Drive:'' e]
            | Inr r \<Rightarrow> [])
   \<and> trace (snd (deleteFileFromDrive drive x w)) = trace w @
         FilesDelete x (fst (files_delete drive x (remote w)))
         # (case fst (files_delete drive x (remote w)) of
              Inl e \<Rightarrow> [ConsoleError ''Error deleting file from Drive:'' e]
            | Inr r \<Rightarrow> [])
   \<and> (case fst (files_delete drive x (remote w)) of
         Inl e \<Rightarrow> True
       | Inr r \<Rightarrow> deleteFolderFromDrive drive x w = deleteFileFromDrive drive x w)
   \<and> res_status (fst (delete_drive_folder drive x w)) =
       res_status (fst (delete_drive_file drive x w))
   \<and> fst (delete_drive_folder drive x w) =
       (case fst (files_delete drive x (remote w)) of
          Inr r \<Rightarrow> if status r = 204
                   then reply 200 (Send ''Folder deleted successfully.'')
                   else reply 500 (Send ''Failed to delete folder from Drive.'')
        | Inl e \<Rightarrow> reply 500 (Send ''Failed to delete folder from Drive.''))
   \<and> fst (delete_drive_file drive x w) =
       (case fst (files_delete drive x (remote w)) of
          Inr r \<Rightarrow> if status r = 204
                   then reply 200 (Send ''File deleted from Drive successfully.'')
                   else reply 500 (Send ''Failed to delete file from Drive.'')
        | Inl e \<Rightarrow> reply 500 (Send ''Failed to delete file from Drive.''))
   \<and> snd (delete_drive_folder drive x w) = snd (deleteFolderFromDrive drive x w)
   \<and> snd (delete_drive_file drive x w) = snd (deleteFileFromDrive drive x w)
   \<and> quiet (snd (delete_drive_folder drive x w)) = quiet (snd (delete_drive_file drive x w))"
proof (intro conjI)
  show "fst (deleteFolderFromDrive drive x w) = fst (deleteFileFromDrive drive x w)"
    by (simp add: delete_results)
  show "fst (deleteFileFromDrive drive x w) =
       map_sum id status (fst (files_delete drive x (remote w)))"
    by (rule delete_results(1))
  show "quiet (snd (deleteFolderFromDrive drive x w)) = quiet (snd (deleteFileFromDrive drive x w))"
    by (rule delete_quiet)
  show "remote (snd (deleteFolderFromDrive drive x w)) = snd (files_delete drive x (remote w))"
    by (auto simp add: deleteFolderFromDrive_def call_defs act_defs split: prod.splits sum.splits)
  show "remote (snd (deleteFileFromDrive drive x w)) = snd (files_delete drive x (remote w))"
    by (auto simp add: deleteFileFromDrive_def call_defs act_defs split: prod.splits sum.splits)
  show "disk (snd (deleteFolderFromDrive drive x w)) = disk w"
    by (auto simp add: deleteFolderFromDrive_def call_defs act_defs split: prod.splits sum.splits)
  show "disk (snd (deleteFileFromDrive drive x w)) = disk w"
    by (auto simp add: deleteFileFromDrive_def call_defs act_defs split: prod.splits sum.splits)
  show "now (snd (deleteFolderFromDrive drive x w)) = now w"
    by (auto simp add: deleteFolderFromDrive_def call_defs act_defs split: prod.splits sum.splits)
  show "now (snd (deleteFileFromDrive drive x w)) = now w"
    by (auto simp add: deleteFileFromDrive_def call_defs act_defs split: prod.splits sum.splits)
  show "trace (snd (deleteFolderFromDrive drive x w)) = trace w @
         FilesDelete x (fst (files_delete drive x (remote w)))
         # (case fst (files_delete drive x (remote w)) of
              Inl e \<Rightarrow> [ConsoleError ''Error deleting folder from Drive:'' e]
            | Inr r \<Rightarrow> [])"
    by (rule delete_folder_events)
  show "trace (snd (deleteFileFromDrive drive x w)) = trace w @
         FilesDelete x (fst (files_delete drive x (remote w)))
         # (case fst (files_delete drive x (remote w)) of
              Inl e \<Rightarrow> [ConsoleError ''Error deleting file from Drive:'' e]
            | Inr r \<Rightarrow> [])"
    by (rule delete_file_events)
  show "case fst (files_delete drive x (remote w)) of
         Inl e \<Rightarrow> True
       | Inr r \<Rightarrow> deleteFolderFromDrive drive x w = deleteFileFromDrive drive x w"
    by (cases "files_delete drive x (remote w)"; cases "fst (files_delete drive x (remote w))")
       (simp_all add: delete_resolved_equal)
  show "res_status (fst (delete_drive_folder drive x w)) =
       res_status (fst (delete_drive_file drive x w))"
    by (simp add: delete_route_answers reply_def split: sum.splits)
  show "fst (delete_drive_folder drive x w) =
       (case fst (files_delete drive x (remote w)) of
          Inr r \<Rightarrow> if status r = 204
                   then reply 200 (Send ''Folder deleted successfully.'')
                   else reply 500 (Send ''Failed to delete folder from Drive.'')
        | Inl e \<Rightarrow> reply 500 (Send ''Failed to delete folder from Drive.''))"
    by (rule delete_route_answers(2))
  show "fst (delete_drive_file drive x w) =
       (case fst (files_delete drive x (remote w)) of
          Inr r \<Rightarrow> if status r = 204
                   then reply 200 (Send ''File deleted from Drive successfully.'')
                   else reply 500 (Send ''Failed to delete file from Drive.'')
        | Inl e \<Rightarrow> reply 500 (Send ''Failed to delete file from Drive.''))"
    by (rule delete_route_answers(1))
  show "snd (delete_drive_folder drive x w) = snd (deleteFolderFromDrive drive x w)"
    by (rule delete_route_worlds(2))
  show "snd (delete_drive_file drive x w) = snd (deleteFileFromDrive drive x w)"
    by (rule delete_route_worlds(1))
  show "quiet (snd (delete_drive_folder drive x w)) = quiet (snd (delete_drive_file drive x w))"
    by (simp add: delete_route_worlds delete_quiet)
qed

theorem delete_folder_is_delete_file_witness:
  "fst (deleteFolderFromDrive mem_drive ''i1'' world0) = Inr 204
   \<and> fst (deleteFileFromDrive mem_drive ''i1'' world0) = Inr 204
   \<and> deleteFolderFromDrive mem_drive ''i1'' world0 = deleteFileFromDrive mem_drive ''i1'' world0
   \<and> trace (snd (deleteFolderFromDrive mem_drive ''i1'' world0)) =
       [FilesDelete ''i1'' (Inr \<lparr>status = 204, data = ()\<rparr>)]
   \<and> stored (remote (snd (deleteFolderFromDrive mem_drive ''i1'' world0))) = [a_folder]
   \<and> res_status (fst (delete_drive_folder mem_drive ''i1'' world0)) = 200
   \<and> res_status (fst (delete_drive_file mem_drive ''i1'' world0)) = 200
   \<and> fst (deleteFolderFromDrive mem_drive ''zz'' world0) = Inl (DriveError ''File not found'')
   \<and> fst (deleteFileFromDrive mem_drive ''zz'' world0) = Inl (DriveError ''File not found'')
   \<and> trace (snd (deleteFolderFromDrive mem_drive ''zz'' world0)) =
       [FilesDelete ''zz'' (Inl (DriveError ''File not found'')),
        ConsoleError ''Error deleting folder from Drive:'' (DriveError ''File not found'')]
   \<and> trace (snd (deleteFileFromDrive mem_drive ''zz'' world0)) =
       [FilesDelete ''zz'' (Inl (DriveError ''File not found'')),
        ConsoleError ''Error deleting file from Drive:'' (DriveError ''File not found'')]
   \<and> res_status (fst (delete_drive_folder mem_drive ''zz'' world0)) = 500
   \<and> res_status (fst (delete_drive_file mem_drive ''zz'' world0)) = 500"
proof -
  have a: "files_delete mem_drive ''i1'' (remote world0) =
     (Inr \<lparr>status = 204, data = ()\<rparr>, \<lparr>next_id = 0, stored = [a_folder]\<rparr>)"
    by (simp add: mem_defs world0_def mem0_def a_folder_def an_image_def no_file_def)
  have z: "files_delete mem_drive ''zz'' (remote world0) =
     (Inl (DriveError ''File not found''), remote world0)"
    by (simp add: mem_defs world0_def mem0_def a_folder_def an_image_def no_file_def)
  have e: "trace world0 = []"
    by (simp add: world0_def)
  from delete_folder_is_delete_file[of mem_drive "''i1''" world0]
  have i1: "fst (deleteFolderFromDrive mem_drive ''i1'' world0) = Inr 204
   \<and> fst (deleteFileFromDrive mem_drive ''i1'' world0) = Inr 204
   \<and> deleteFolderFromDrive mem_drive ''i1'' world0 = deleteFileFromDrive mem_drive ''i1'' world0
   \<and> trace (snd (deleteFolderFromDrive mem_drive ''i1'' world0)) =
       [FilesDelete ''i1'' (Inr \<lparr>status = 204, data = ()\<rparr>)]
   \<and> stored (remote (snd (deleteFolderFromDrive mem_drive ''i1'' world0))) = [a_folder]
   \<and> res_status (fst (delete_drive_folder mem_drive ''i1'' world0)) = 200
   \<and> res_status (fst (delete_drive_file mem_drive ''i1'' world0)) = 200"
    by (simp add: a e reply_def)
  from delete_folder_is_delete_file[of mem_drive "''zz''" world0]
  have zz: "fst (deleteFolderFromDrive mem_drive ''zz'' world0) = Inl (DriveError ''File not found'')
   \<and> fst (deleteFileFromDrive mem_drive ''zz'' world0) = Inl (DriveError ''File not found'')
   \<and> trace (snd (deleteFolderFromDrive mem_drive ''zz'' world0)) =
       [FilesDelete ''zz'' (Inl (DriveError ''File not found'')),
        ConsoleError ''Error deleting folder from Drive:'' (DriveError ''File not found'')]
   \<and> trace (snd (deleteFileFromDrive mem_drive ''zz'' world0)) =
       [FilesDelete ''zz'' (Inl (DriveError ''File not found'')),
        ConsoleError ''Error deleting file from Drive:'' (DriveError ''File not found'')]
   \<and> res_status (fst (delete_drive_folder mem_drive ''zz'' world0)) = 500
   \<and> res_status (fst (delete_drive_file mem_drive ''zz'' world0)) = 500"
    by (simp add: z e reply_def)
  from i1 zz show ?thesis
    by blast
qed

subsection \<open>C3: where the routes stage their files\<close>

lemma single_stages:
  assumes "fieldname p = field"
  shows "single dest field (Some p) w =
     (Inr (Some \<lparr>fieldname = fieldname p, originalname = originalname p,
                  mimetype = mimetype p, destination = dest p,
                  filename = string_of_nat (now w) @ ''-'' @ originalname p,
                  path = path_join (dest p) (string_of_nat (now w) @ ''-'' @ originalname p)\<rparr>),
      w\<lparr>disk := (disk w)(path_join (dest p) (string_of_nat (now w) @ ''-'' @ originalname p)
                          \<mapsto> content p)\<rparr>)"
  using assms by (simp add: single_def storage_filename_def Let_def)

lemma upload_keeps_other_paths:
  fixes drive :: "'d drive"
  assumes "q \<noteq> path file"
  shows "disk (snd (uploadFileToDrive drive file fileType folderId w)) q = disk w q"
  using assms
  by (auto simp add: uploadFileToDrive_def call_defs act_defs Let_def
        split: prod.splits sum.splits option.splits)

lemma snd_case_result:
  "snd (case X of (Inr r, w2) \<Rightarrow> (f r, w2) | (Inl e, w2) \<Rightarrow> (g e, w2)) = snd X"
  by (cases X; cases "fst X") auto

lemma upload_route_touches_only_uploads:
  fixes drive :: "'d drive"
  assumes "q \<noteq> path_join (uploadsDir dirname) (string_of_nat (now w) @ ''-'' @ originalname p)"
  shows "disk (snd (post_drive_upload_image drive dirname (Some p) w)) q = disk w q"
    and "disk (snd (post_drive_upload_file drive dirname (Some p) w)) q = disk w q"
proof -
  show "disk (snd (post_drive_upload_image drive dirname (Some p) w)) q = disk w q"
  proof (cases "fieldname p = ''image''")
    case True
    have "upload_single dirname ''image'' (Some p) w =
            single (storage_destination dirname) ''image'' (Some p) w"
      by (simp add: upload_single_def)
    then show ?thesis
      using assms
      by (simp add: post_drive_upload_image_def single_stages[OF True] snd_case_result
            upload_keeps_other_paths storage_destination_def)
  next
    case False
    then show ?thesis
      by (simp add: post_drive_upload_image_def upload_single_def single_def)
  qed
  show "disk (snd (post_drive_upload_file drive dirname (Some p) w)) q = disk w q"
  proof (cases "fieldname p = ''file''")
    case True
    have "upload_single dirname ''file'' (Some p) w =
            single (storage_destination dirname) ''file'' (Some p) w"
      by (simp add: upload_single_def)
    then show ?thesis
      using assms
      by (simp add: post_drive_upload_file_def single_stages[OF True] snd_case_result
            upload_keeps_other_paths storage_destination_def)
  next
    case False
    then show ?thesis
      by (simp add: post_drive_upload_file_def upload_single_def single_def)
  qed
qed

text \<open>
  Claim C3, as the code has it. The program names two fixed directories, \<^verbatim>\<open>img\<close> and
  \<^verbatim>\<open>uploads\<close> under its own directory, and they are different. In the Drive gateway
  the middleware of the image upload route and that of the general upload route both
  write the staged file into the uploads directory, under the arrival time, a dash and
  the original name, and neither route changes any other path of the disk. Only the
  local-only server stores the file of its image route in the image directory.
\<close>

theorem both_routes_stage_in_uploads:
  fixes drive :: "'d drive"
  shows
    "imgDir dirname = path_join dirname ''img''
   \<and> uploadsDir dirname = path_join dirname ''uploads''
   \<and> imgDir dirname \<noteq> uploadsDir dirname
   \<and> (fieldname p = ''image'' \<longrightarrow>
        (\<exists>staged. upload_single dirname ''image'' (Some p) w =
             (Inr (Some staged), w\<lparr>disk := (disk w)(path staged \<mapsto> content p)\<rparr>)
           \<and> destination staged = uploadsDir dirname
           \<and> filename staged = string_of_nat (now w) @ ''-'' @ originalname p
           \<and> path staged = path_join (uploadsDir dirname) (filename staged)))
   \<and> (fieldname p = ''file'' \<longrightarrow>
        (\<exists>staged. upload_single dirname ''file'' (Some p) w =
             (Inr (Some staged), w\<lparr>disk := (disk w)(path staged \<mapsto> content p)\<rparr>)
           \<and> destination staged = uploadsDir dirname
           \<and> filename staged = string_of_nat (now w) @ ''-'' @ originalname p
           \<and> path staged = path_join (uploadsDir dirname) (filename staged)))
   \<and> (\<forall>q. q \<noteq> path_join (uploadsDir dirname) (string_of_nat (now w) @ ''-'' @ originalname p) \<longrightarrow>
          disk (snd (post_drive_upload_image drive dirname (Some p) w)) q = disk w q
        \<and> disk (snd (post_drive_upload_file drive dirname (Some p) w)) q = disk w q)
   \<and> (fieldname p = ''image'' \<longrightarrow>
        (\<exists>staged. uploadImage_single dirname ''image'' (Some p) w =
             (Inr (Some staged), w\<lparr>disk := (disk w)(path staged \<mapsto> content p)\<rparr>)
           \<and> destination staged = imgDir dirname))"
proof (intro conjI impI allI)
  show "imgDir dirname = path_join dirname ''img''"
    by (simp add: imgDir_def)
  show "uploadsDir dirname = path_join dirname ''uploads''"
    by (simp add: uploadsDir_def)
  show "imgDir dirname \<noteq> uploadsDir dirname"
    by (simp add: imgDir_def uploadsDir_def path_join_def)
next
  assume f: "fieldname p = ''image''"
  show "\<exists>staged. upload_single dirname ''image'' (Some p) w =
             (Inr (Some staged), w\<lparr>disk := (disk w)(path staged \<mapsto> content p)\<rparr>)
           \<and> destination staged = uploadsDir dirname
           \<and> filename staged = string_of_nat (now w) @ ''-'' @ originalname p
           \<and> path staged = path_join (uploadsDir dirname) (filename staged)"
    by (rule exI[of _ "\<lparr>fieldname = fieldname p, originalname = originalname p,
          mimetype = mimetype p, destination = uploadsDir dirname,
          filename = string_of_nat (now w) @ ''-'' @ originalname p,
          path = path_join (uploadsDir dirname)
                   (string_of_nat (now w) @ ''-'' @ originalname p)\<rparr>"])
       (simp add: upload_single_def storage_destination_def single_stages[OF f])
next
  assume f: "fieldname p = ''file''"
  show "\<exists>staged. upload_single dirname ''file'' (Some p) w =
             (Inr (Some staged), w\<lparr>disk := (disk w)(path staged \<mapsto> content p)\<rparr>)
           \<and> destination staged = uploadsDir dirname
           \<and> filename staged = string_of_nat (now w) @ ''-'' @ originalname p
           \<and> path staged = path_join (uploadsDir dirname) (filename staged)"
    by (rule exI[of _ "\<lparr>fieldname = fieldname p, originalname = originalname p,
          mimetype = mimetype p, destination = uploadsDir dirname,
          filename = string_of_nat (now w) @ ''-'' @ originalname p,
          path = path_join (uploadsDir dirname)
                   (string_of_nat (now w) @ ''-'' @ originalname p)\<rparr>"])
       (simp add: upload_single_def storage_destination_def single_stages[OF f])
next
  fix q
  assume q: "q \<noteq> path_join (uploadsDir dirname) (string_of_nat (now w) @ ''-'' @ originalname p)"
  show "disk (snd (post_drive_upload_image drive dirname (Some p) w)) q = disk w q"
    by (rule upload_route_touches_only_uploads(1)[OF q])
  show "disk (snd (post_drive_upload_file drive dirname (Some p) w)) q = disk w q"
    by (rule upload_route_touches_only_uploads(2)[OF q])
next
  assume f: "fieldname p = ''image''"
  show "\<exists>staged. uploadImage_single dirname ''image'' (Some p) w =
             (Inr (Some staged), w\<lparr>disk := (disk w)(path staged \<mapsto> content p)\<rparr>)
           \<and> destination staged = imgDir dirname"
    by (rule exI[of _ "\<lparr>fieldname = fieldname p, originalname = originalname p,
          mimetype = mimetype p, destination = imgDir dirname,
          filename = string_of_nat (now w) @ ''-'' @ originalname p,
          path = path_join (imgDir dirname)
                   (string_of_nat (now w) @ ''-'' @ originalname p)\<rparr>"])
       (simp add: uploadImage_single_def imageStorage_destination_def single_stages[OF f])
qed
theorem both_routes_stage_in_uploads_witness:
  "fieldname part0 = ''image''
   \<and> (\<exists>staged. upload_single ''/srv'' ''image'' (Some part0) world0 =
          (Inr (Some staged), world0\<lparr>disk := (disk world0)(path staged \<mapsto> content part0)\<rparr>)
        \<and> destination staged = ''/srv/uploads''
        \<and> path staged = ''/srv/uploads/1700-photo.png'')
   \<and> fieldname (part0\<lparr>fieldname := ''file''\<rparr>) = ''file''
   \<and> (\<exists>staged. upload_single ''/srv'' ''file'' (Some (part0\<lparr>fieldname := ''file''\<rparr>)) world0 =
          (Inr (Some staged), world0\<lparr>disk := (disk world0)(path staged \<mapsto> content part0)\<rparr>)
        \<and> destination staged = ''/srv/uploads''
        \<and> path staged = ''/srv/uploads/1700-photo.png'')
   \<and> ''/srv/img/1700-photo.png'' \<noteq> ''/srv/uploads/1700-photo.png''
   \<and> disk (snd (post_drive_upload_image mem_drive ''/srv'' (Some part0) world0))
         ''/srv/img/1700-photo.png'' = None
   \<and> (\<exists>staged. uploadImage_single ''/srv'' ''image'' (Some part0) world0 =
          (Inr (Some staged), world0\<lparr>disk := (disk world0)(path staged \<mapsto> content part0)\<rparr>)
        \<and> destination staged = ''/srv/img'')"
proof -
  have n: "string_of_nat (now world0) = ''1700''"
    by (simp add: world0_def digit_def)
  have f: "fieldname part0 = ''image''" and o: "originalname part0 = ''photo.png''"
    by (simp_all add: part0_def)
  have g: "fieldname (part0\<lparr>fieldname := ''file''\<rparr>) = ''file''"
    by simp
  have u: "uploadsDir ''/srv'' = ''/srv/uploads''" and i: "imgDir ''/srv'' = ''/srv/img''"
    by (simp_all add: uploadsDir_def imgDir_def path_join_def)
  have q: "''/srv/img/1700-photo.png'' \<noteq>
        path_join (uploadsDir ''/srv'') (string_of_nat (now world0) @ ''-'' @ originalname part0)"
    by (simp add: n o u path_join_def)
  note T = both_routes_stage_in_uploads[of "''/srv''" _ world0 mem_drive]
  note image_route = T[THEN conjunct2, THEN conjunct2, THEN conjunct2, THEN conjunct1, rule_format]
  note file_route = T[THEN conjunct2, THEN conjunct2, THEN conjunct2, THEN conjunct2,
                      THEN conjunct1, rule_format]
  note others = T[THEN conjunct2, THEN conjunct2, THEN conjunct2, THEN conjunct2,
                  THEN conjunct2, THEN conjunct1, rule_format]
  note local_only = T[THEN conjunct2, THEN conjunct2, THEN conjunct2, THEN conjunct2,
                      THEN conjunct2, THEN conjunct2, rule_format]
  have a: "\<exists>staged. upload_single ''/srv'' ''image'' (Some part0) world0 =
          (Inr (Some staged), world0\<lparr>disk := (disk world0)(path staged \<mapsto> content part0)\<rparr>)
        \<and> destination staged = ''/srv/uploads''
        \<and> path staged = ''/srv/uploads/1700-photo.png''"
  proof -
    from image_route[OF f] obtain staged where
      s1: "upload_single ''/srv'' ''image'' (Some part0) world0 =
          (Inr (Some staged), world0\<lparr>disk := (disk world0)(path staged \<mapsto> content part0)\<rparr>)"
      and s2: "destination staged = uploadsDir ''/srv''"
      and s3: "filename staged = string_of_nat (now world0) @ ''-'' @ originalname part0"
      and s4: "path staged = path_join (uploadsDir ''/srv'') (filename staged)"
      by blast
    have "destination staged = ''/srv/uploads''"
      using s2 u by simp
    moreover have "path staged = ''/srv/uploads/1700-photo.png''"
      using s3 s4 n o u by (simp add: path_join_def)
    ultimately show ?thesis
      using s1 by blast
  qed
  have b: "\<exists>staged. upload_single ''/srv'' ''file'' (Some (part0\<lparr>fieldname := ''file''\<rparr>)) world0 =
          (Inr (Some staged), world0\<lparr>disk := (disk world0)(path staged \<mapsto> content part0)\<rparr>)
        \<and> destination staged = ''/srv/uploads''
        \<and> path staged = ''/srv/uploads/1700-photo.png''"
  proof -
    from file_route[OF g] obtain staged where
      s1: "upload_single ''/srv'' ''file'' (Some (part0\<lparr>fieldname := ''file''\<rparr>)) world0 =
          (Inr (Some staged),
           world0\<lparr>disk := (disk world0)(path staged \<mapsto> content (part0\<lparr>fieldname := ''file''\<rparr>))\<rparr>)"
      and s2: "destination staged = uploadsDir ''/srv''"
      and s3: "filename staged =
                 string_of_nat (now world0) @ ''-'' @ originalname (part0\<lparr>fieldname := ''file''\<rparr>)"
      and s4: "path staged = path_join (uploadsDir ''/srv'') (filename staged)"
      by blast
    have "destination staged = ''/srv/uploads''"
      using s2 u by simp
    moreover have "path staged = ''/srv/uploads/1700-photo.png''"
      using s3 s4 n o u by (simp add: path_join_def)
    moreover have "upload_single ''/srv'' ''file'' (Some (part0\<lparr>fieldname := ''file''\<rparr>)) world0 =
          (Inr (Some staged), world0\<lparr>disk := (disk world0)(path staged \<mapsto> content part0)\<rparr>)"
      using s1 by simp
    ultimately show ?thesis
      by blast
  qed
  have c: "disk (snd (post_drive_upload_image mem_drive ''/srv'' (Some part0) world0))
         ''/srv/img/1700-photo.png'' = None"
    using others[of "''/srv/img/1700-photo.png''" part0, OF q, THEN conjunct1]
    by (simp add: world0_def)
  have d: "\<exists>staged. uploadImage_single ''/srv'' ''image'' (Some part0) world0 =
          (Inr (Some staged), world0\<lparr>disk := (disk world0)(path staged \<mapsto> content part0)\<rparr>)
        \<and> destination staged = ''/srv/img''"
    using local_only[OF f] i by simp
  have e: "''/srv/img/1700-photo.png'' \<noteq> ''/srv/uploads/1700-photo.png''"
    by simp
  from f a g b e c d show ?thesis
    by blast
qed

text \<open>
  The claim as it was stated does not hold: the file that the image upload route stages
  is in the uploads directory, not in the image directory. With a backend that refuses
  the grant, so that the staged file is kept, the disk holds it under \<^verbatim>\<open>uploads\<close>
  and holds nothing under \<^verbatim>\<open>img\<close>.
\<close>

theorem image_route_stages_in_uploads_counterexample:
  "fst (upload_single ''/srv'' ''image'' (Some part0) (world0\<lparr>disk := Map.empty\<rparr>)) =
     Inr (Some \<lparr>fieldname = ''image'', originalname = ''photo.png'', mimetype = ''image/png'',
                destination = ''/srv/uploads'', filename = ''1700-photo.png'',
                path = ''/srv/uploads/1700-photo.png''\<rparr>)
   \<and> imgDir ''/srv'' = ''/srv/img''
   \<and> ''/srv/uploads'' \<noteq> imgDir ''/srv''
   \<and> res_status (fst (post_drive_upload_image private_drive ''/srv'' (Some part0)
          (world0\<lparr>disk := Map.empty\<rparr>))) = 500
   \<and> disk (snd (post_drive_upload_image private_drive ''/srv'' (Some part0)
          (world0\<lparr>disk := Map.empty\<rparr>))) ''/srv/uploads/1700-photo.png'' = Some ''0123456789''
   \<and> disk (snd (post_drive_upload_image private_drive ''/srv'' (Some part0)
          (world0\<lparr>disk := Map.empty\<rparr>))) ''/srv/img/1700-photo.png'' = None"
proof -
  let ?w = "world0\<lparr>disk := Map.empty\<rparr>"
  let ?st = "\<lparr>fieldname = ''image'', originalname = ''photo.png'', mimetype = ''image/png'',
                destination = ''/srv/uploads'', filename = ''1700-photo.png'',
                path = ''/srv/uploads/1700-photo.png''\<rparr>"
  let ?w1 = "?w\<lparr>disk := (disk ?w)(''/srv/uploads/1700-photo.png'' \<mapsto> ''0123456789'')\<rparr>"
  have s: "upload_single ''/srv'' ''image'' (Some part0) ?w = (Inr (Some ?st), ?w1)"
    by (simp add: upload_single_def single_def storage_destination_def storage_filename_def
          uploadsDir_def path_join_def part0_def world0_def digit_def Let_def)
  have c: "files_create private_drive (upload_fileMetadata ?st ''image/png'' None)
             (Some (media_of ?st ''image/png'' ?w1)) ''id, name'' (remote ?w1) =
           (Inr created0,
            snd (files_create private_drive (upload_fileMetadata ?st ''image/png'' None)
             (Some (media_of ?st ''image/png'' ?w1)) ''id, name'' (remote ?w1)))"
    by (simp add: Let_def mem_defs upload_fileMetadata_def world0_def mem0_def digit_def
          created0_def)
  have r: "fst (uploadFileToDrive private_drive ?st ''image/png'' None ?w1) =
             Inl (DriveError ''Forbidden'')"
    and k: "disk (snd (uploadFileToDrive private_drive ?st ''image/png'' None ?w1)) = disk ?w1"
    using upload_grant_fails(1,2)[OF c sample_grant_private] by simp_all
  have p: "uploadFileToDrive private_drive ?st ''image/png'' None ?w1 =
             (Inl (DriveError ''Forbidden''),
              snd (uploadFileToDrive private_drive ?st ''image/png'' None ?w1))"
    using r by (simp add: prod_eq_iff)
  have m: "mimetype ?st = ''image/png''"
    by simp
  have route: "post_drive_upload_image private_drive ''/srv'' (Some part0) ?w =
      (reply 500 (Send ''Failed to upload image to Drive.''),
       snd (uploadFileToDrive private_drive ?st ''image/png'' None ?w1))"
    unfolding post_drive_upload_image_def s
    by (simp only: m prod.case sum.case option.case) (subst p, simp)
  show ?thesis
    using k by (simp add: s route reply_def imgDir_def path_join_def)
qed

end
